theory Spec2Isabelle
  imports Complex_Main
begin

section \<open>Platform values: strings, property lookup, exceptions\<close>

text \<open>
  The sources are TypeScript. A string is modelled as a list of code units below 256
  (Latin-1), which covers every identifier, alias and tag of the sources. The two
  string operations the sport utilities use are \<open>String.prototype.toLowerCase\<close> and
  \<open>String.prototype.includes\<close>.
\<close>

definition toLowerChar :: "char \<Rightarrow> char" where
  "toLowerChar c =
     (let n = (of_char c :: nat)
      in if (65 \<le> n \<and> n \<le> 90) \<or> (192 \<le> n \<and> n \<le> 222 \<and> n \<noteq> 215)
         then char_of (n + 32) else c)"

definition toLowerCase :: "string \<Rightarrow> string" where
  "toLowerCase s = map toLowerChar s"

fun startsWith :: "string \<Rightarrow> string \<Rightarrow> bool" where
  "startsWith s [] = True"
| "startsWith [] (c # cs) = False"
| "startsWith (d # ds) (c # cs) = (d = c \<and> startsWith ds cs)"

text \<open>\<open>includes_str s t\<close> is \<open>s.includes(t)\<close>: \<open>t\<close> occurs in \<open>s\<close> as a contiguous run.\<close>

fun includes_str :: "string \<Rightarrow> string \<Rightarrow> bool" where
  "includes_str [] t = (t = [])"
| "includes_str (d # ds) t = (startsWith (d # ds) t \<or> includes_str ds t)"

text \<open>
  The character class \<open>\s\<close> of a regular expression, on code units below 256: tab, line
  feed, vertical tab, form feed, carriage return, space and the no-break space.
\<close>

definition regex_space :: "char \<Rightarrow> bool" where
  "regex_space c = ((of_char c :: nat) \<in> {9, 10, 11, 12, 13, 32, 160})"

text \<open>An \<open>Error\<close> object, by class and message.\<close>

datatype js_error = Error string | TypeError string

fun message :: "js_error \<Rightarrow> string" where
  "message (Error m) = m"
| "message (TypeError m) = m"

text \<open>
  Any value can be thrown, and a promise can reject with any value. What the \<open>catch\<close>
  blocks of the facade do with the value they catch is read its \<open>message\<close>, so three
  kinds are told apart: an error object, with its message; \<open>null\<close> or \<open>undefined\<close>, on
  which reading a property throws a \<open>TypeError\<close>; and any other value (a string, a
  number, an object with no message), whose \<open>message\<close> is \<open>undefined\<close>.
\<close>

datatype thrown = ErrorObject js_error | NullOrUndefined | OtherValue

text \<open>\<open>(error as Error).message\<close>: the message if there is one, or the \<open>TypeError\<close> thrown.\<close>

fun read_message :: "thrown \<Rightarrow> js_error + string option" where
  "read_message (ErrorObject e) = Inr (Some (message e))"
| "read_message OtherValue = Inr None"
| "read_message NullOrUndefined =
     Inl (TypeError ''Cannot read properties of undefined (reading 'message')'')"

text \<open>
  Reading \<open>obj[key]\<close> on an object literal finds the object's own property, or else a
  property inherited from \<open>Object.prototype\<close> (a function, or the prototype itself for
  \<open>__proto__\<close>: a truthy value that is no string and no configuration), or else
  \<open>undefined\<close>. The tables of the sources are object literals indexed by arbitrary
  strings, so the lookup is modelled with all three outcomes.
\<close>

datatype 'a property = Own 'a | Inherited | Missing

definition Object_prototype_keys :: "string list" where
  "Object_prototype_keys =
     [''constructor'', ''__defineGetter__'', ''__defineSetter__'', ''hasOwnProperty'',
      ''__lookupGetter__'', ''__lookupSetter__'', ''isPrototypeOf'',
      ''propertyIsEnumerable'', ''toString'', ''valueOf'', ''__proto__'',
      ''toLocaleString'']"

definition get_property :: "(string \<times> 'a) list \<Rightarrow> string \<Rightarrow> 'a property" where
  "get_property obj k =
     (case map_of obj k of
        Some v \<Rightarrow> Own v
      | None \<Rightarrow> if k \<in> set Object_prototype_keys then Inherited else Missing)"

section \<open>Sport registry (constants/unifiedSports)\<close>

definition UNIFIED_SPORTS_ALL :: string where "UNIFIED_SPORTS_ALL = ''all''"
definition UNIFIED_SPORTS_NBA :: string where "UNIFIED_SPORTS_NBA = ''nba''"
definition UNIFIED_SPORTS_WNBA :: string where "UNIFIED_SPORTS_WNBA = ''wnba''"
definition UNIFIED_SPORTS_NFL :: string where "UNIFIED_SPORTS_NFL = ''nfl''"
definition UNIFIED_SPORTS_MLB :: string where "UNIFIED_SPORTS_MLB = ''mlb''"
definition UNIFIED_SPORTS_NHL :: string where "UNIFIED_SPORTS_NHL = ''nhl''"
definition UNIFIED_SPORTS_SOCCER :: string where "UNIFIED_SPORTS_SOCCER = ''soccer''"
definition UNIFIED_SPORTS_PGA :: string where "UNIFIED_SPORTS_PGA = ''pga''"
definition UNIFIED_SPORTS_TENNIS :: string where "UNIFIED_SPORTS_TENNIS = ''tennis''"
definition UNIFIED_SPORTS_ESPORTS :: string where "UNIFIED_SPORTS_ESPORTS = ''esports''"
definition UNIFIED_SPORTS_MMA :: string where "UNIFIED_SPORTS_MMA = ''mma''"
definition UNIFIED_SPORTS_COLLEGE_FOOTBALL :: string where
  "UNIFIED_SPORTS_COLLEGE_FOOTBALL = ''college-football''"
definition UNIFIED_SPORTS_COLLEGE_BASKETBALL :: string where
  "UNIFIED_SPORTS_COLLEGE_BASKETBALL = ''college-basketball''"

datatype category = professional | college | international | esports | other

record Season =
  season_start :: string
  season_end :: string
  isYearRound :: bool

text \<open>
  \<open>SportConfig\<close> with its identifying and seasonal fields; the emoji and the lists of
  popular statistics, positions and markets are presentation data no function of the
  filtering layer reads.
\<close>

record SportConfig =
  cfg_id :: string
  cfg_name :: string
  cfg_displayName :: string
  cfg_abbreviation :: string
  cfg_color :: string
  cfg_isActive :: bool
  cfg_category :: category
  cfg_season :: Season

definition mk_config ::
  "string \<Rightarrow> string \<Rightarrow> string \<Rightarrow> string \<Rightarrow> category \<Rightarrow> string \<Rightarrow> string \<Rightarrow> bool \<Rightarrow> SportConfig" where
  "mk_config i dn ab col cat s e yr =
     \<lparr>cfg_id = i, cfg_name = i, cfg_displayName = dn, cfg_abbreviation = ab,
      cfg_color = col, cfg_isActive = True, cfg_category = cat,
      cfg_season = \<lparr>season_start = s, season_end = e, isYearRound = yr\<rparr>\<rparr>"

text \<open>The object \<open>SPORT_CONFIGS\<close>, its own properties in the order of the source.\<close>

definition SPORT_CONFIGS :: "(string \<times> SportConfig) list" where
  "SPORT_CONFIGS =
     [(UNIFIED_SPORTS_ALL,
         mk_config UNIFIED_SPORTS_ALL ''All Sports'' ''ALL'' ''#6366f1'' other
           ''January'' ''December'' True),
      (UNIFIED_SPORTS_NBA,
         mk_config UNIFIED_SPORTS_NBA ''NBA Basketball'' ''NBA'' ''#FF6B35'' professional
           ''October'' ''June'' False),
      (UNIFIED_SPORTS_WNBA,
         mk_config UNIFIED_SPORTS_WNBA ''WNBA Basketball'' ''WNBA'' ''#FF6B35'' professional
           ''May'' ''October'' False),
      (UNIFIED_SPORTS_NFL,
         mk_config UNIFIED_SPORTS_NFL ''NFL Football'' ''NFL'' ''#2563eb'' professional
           ''September'' ''February'' False),
      (UNIFIED_SPORTS_MLB,
         mk_config UNIFIED_SPORTS_MLB ''MLB Baseball'' ''MLB'' ''#059669'' professional
           ''March'' ''October'' False),
      (UNIFIED_SPORTS_NHL,
         mk_config UNIFIED_SPORTS_NHL ''NHL Hockey'' ''NHL'' ''#0891b2'' professional
           ''October'' ''June'' False),
      (UNIFIED_SPORTS_SOCCER,
         mk_config UNIFIED_SPORTS_SOCCER ''Soccer/Football'' ''SOC'' ''#16a34a'' international
           ''August'' ''May'' True),
      (UNIFIED_SPORTS_PGA,
         mk_config UNIFIED_SPORTS_PGA ''PGA Golf'' ''PGA'' ''#ca8a04'' professional
           ''January'' ''November'' False),
      (UNIFIED_SPORTS_TENNIS,
         mk_config UNIFIED_SPORTS_TENNIS ''Tennis'' ''TEN'' ''#7c3aed'' professional
           ''January'' ''November'' False),
      (UNIFIED_SPORTS_ESPORTS,
         mk_config UNIFIED_SPORTS_ESPORTS ''Esports'' ''ESP'' ''#8b5cf6'' esports
           ''January'' ''December'' True),
      (UNIFIED_SPORTS_MMA,
         mk_config UNIFIED_SPORTS_MMA ''Mixed Martial Arts'' ''MMA'' ''#dc2626'' professional
           ''January'' ''December'' True),
      (UNIFIED_SPORTS_COLLEGE_FOOTBALL,
         mk_config UNIFIED_SPORTS_COLLEGE_FOOTBALL ''College Football'' ''CFB'' ''#ea580c''
           college ''August'' ''January'' False),
      (UNIFIED_SPORTS_COLLEGE_BASKETBALL,
         mk_config UNIFIED_SPORTS_COLLEGE_BASKETBALL ''College Basketball'' ''CBB''
           ''#f59e0b'' college ''November'' ''April'' False)]"

text \<open>The ids registered in the sport config table.\<close>

definition registered_ids :: "string list" where
  "registered_ids = map fst SPORT_CONFIGS"

text \<open>
  \<open>getSportConfig\<close> returns \<open>SPORT_CONFIGS[sportId.toLowerCase()] || null\<close>; every own
  and every inherited property is truthy, so \<open>Missing\<close> stands for \<open>null\<close>.
\<close>

definition getSportConfig :: "string \<Rightarrow> SportConfig property" where
  "getSportConfig sportId = get_property SPORT_CONFIGS (toLowerCase sportId)"

definition isValidSport :: "string \<Rightarrow> bool" where
  "isValidSport sportId = (getSportConfig sportId \<noteq> Missing)"

text \<open>\<open>replace(/[-_\s]/g, "-")\<close> rewrites each matching character on its own.\<close>

definition hyphenate :: "string \<Rightarrow> string" where
  "hyphenate s =
     map (\<lambda>c. if c = CHR ''-'' \<or> c = CHR ''_'' \<or> regex_space c then CHR ''-'' else c) s"

definition normalizeSportId :: "string \<Rightarrow> string" where
  "normalizeSportId sportId =
     (let normalized = hyphenate (toLowerCase sportId)
      in if isValidSport normalized then normalized else UNIFIED_SPORTS_ALL)"

section \<open>Sport filtering (utils/sportFiltering)\<close>

definition normalizeSportFilter :: "string \<Rightarrow> string" where
  "normalizeSportFilter sport =
     (if sport = [] \<or> sport = ''all'' then UNIFIED_SPORTS_ALL else normalizeSportId sport)"

text \<open>
  Items are values of any type that extends \<open>SportFilterable\<close>: a record scheme with a
  \<open>sport\<close> field.
\<close>

record SportFilterable =
  sport :: string

text \<open>
  \<open>SportFilterOptions\<close>. An optional field left out by the caller is \<open>None\<close>; the
  defaults are applied by \<open>filterBySport\<close>, as its destructuring does.
\<close>

record SportFilterOptions =
  opt_sport :: string
  includeAll :: "bool option"
  caseSensitive :: "bool option"
  allowPartialMatch :: "bool option"
  mapSportNames :: "(string \<times> string) list option"

definition default_to :: "'a \<Rightarrow> 'a option \<Rightarrow> 'a" where
  "default_to d v = (case v of None \<Rightarrow> d | Some x \<Rightarrow> x)"

text \<open>
  The callback \<open>filterBySport\<close> gives to \<open>Array.prototype.filter\<close>, for one item.
  \<open>mapSportNames[itemSport]\<close> is read twice: when it is an own, nonempty string the
  item's sport is replaced by it; when it is inherited from \<open>Object.prototype\<close> the
  item's sport becomes a function, on which \<open>toLowerCase\<close> and \<open>includes\<close> are not
  defined, and calling them throws a \<open>TypeError\<close>.
\<close>

definition sport_matches ::
  "bool \<Rightarrow> bool \<Rightarrow> (string \<times> string) list \<Rightarrow> string \<Rightarrow> string \<Rightarrow> js_error + bool" where
  "sport_matches cs partial names normalizedTargetSport item_sport =
     (if item_sport = [] then Inr False
      else case get_property names item_sport of
        Inherited \<Rightarrow>
          if \<not> cs then Inl (TypeError ''itemSport.toLowerCase is not a function'')
          else if partial then Inl (TypeError ''normalizedItemSport.includes is not a function'')
          else Inr False
      | looked \<Rightarrow>
          (let itemSport = (case looked of Own v \<Rightarrow> if v \<noteq> [] then v else item_sport
                                         | _ \<Rightarrow> item_sport);
               normalizedItemSport = (if cs then itemSport else toLowerCase itemSport)
           in if normalizedItemSport = normalizedTargetSport then Inr True
              else if partial
                then Inr (includes_str normalizedItemSport normalizedTargetSport \<or>
                          includes_str normalizedTargetSport normalizedItemSport)
              else Inr False))"

text \<open>\<open>Array.prototype.filter\<close> with a callback that may throw: the first throw ends it.\<close>

fun filter_throwing :: "('a \<Rightarrow> js_error + bool) \<Rightarrow> 'a list \<Rightarrow> js_error + 'a list" where
  "filter_throwing p [] = Inr []"
| "filter_throwing p (x # xs) =
     (case p x of
        Inl e \<Rightarrow> Inl e
      | Inr keep \<Rightarrow>
          (case filter_throwing p xs of
             Inl e \<Rightarrow> Inl e
           | Inr ys \<Rightarrow> Inr (if keep then x # ys else ys)))"

definition filterBySport ::
  "'a SportFilterable_scheme list \<Rightarrow> SportFilterOptions \<Rightarrow>
   js_error + 'a SportFilterable_scheme list" where
  "filterBySport items options =
     (let target = opt_sport options;
          incl = default_to True (includeAll options);
          cs = default_to False (caseSensitive options);
          partial = default_to True (allowPartialMatch options);
          names = default_to [] (mapSportNames options)
      in if incl \<and> (target = UNIFIED_SPORTS_ALL \<or> target = ''all'' \<or> target = [])
         then Inr items
         else (let normalizedTargetSport = (if cs then target else toLowerCase target)
               in filter_throwing
                    (\<lambda>item. sport_matches cs partial names normalizedTargetSport (sport item))
                    items))"

text \<open>The object \<open>COMMON_SPORT_MAPPINGS\<close>, its own properties in the order of the source.\<close>

definition COMMON_SPORT_MAPPINGS :: "(string \<times> string) list" where
  "COMMON_SPORT_MAPPINGS =
     [(''basketball'', UNIFIED_SPORTS_NBA),
      (''football'', UNIFIED_SPORTS_NFL),
      (''baseball'', UNIFIED_SPORTS_MLB),
      (''hockey'', UNIFIED_SPORTS_NHL),
      (''golf'', UNIFIED_SPORTS_PGA),
      (''mma'', UNIFIED_SPORTS_MMA),
      (''ufc'', UNIFIED_SPORTS_MMA),
      (''esport'', UNIFIED_SPORTS_ESPORTS),
      (''gaming'', UNIFIED_SPORTS_ESPORTS),
      (''NBA'', UNIFIED_SPORTS_NBA),
      (''NFL'', UNIFIED_SPORTS_NFL),
      (''MLB'', UNIFIED_SPORTS_MLB),
      (''NHL'', UNIFIED_SPORTS_NHL),
      (''WNBA'', UNIFIED_SPORTS_WNBA),
      (''PGA'', UNIFIED_SPORTS_PGA),
      (''MMA'', UNIFIED_SPORTS_MMA),
      (''Soccer'', UNIFIED_SPORTS_SOCCER),
      (''Tennis'', UNIFIED_SPORTS_TENNIS),
      (''Esports'', UNIFIED_SPORTS_ESPORTS),
      (''futbol'', UNIFIED_SPORTS_SOCCER),
      (''football_eu'', UNIFIED_SPORTS_SOCCER),
      (''american_football'', UNIFIED_SPORTS_NFL)]"

text \<open>The options object of \<open>filterSportData\<close>; \<open>None\<close> is a field the caller left out.\<close>

record SportDataOptions =
  useCommonMappings :: "bool option"
  sd_allowPartialMatch :: "bool option"
  sd_caseSensitive :: "bool option"

definition default_options :: SportDataOptions where
  "default_options =
     \<lparr>useCommonMappings = None, sd_allowPartialMatch = None, sd_caseSensitive = None\<rparr>"

definition filterSportData ::
  "'a SportFilterable_scheme list \<Rightarrow> string \<Rightarrow> SportDataOptions \<Rightarrow>
   js_error + 'a SportFilterable_scheme list" where
  "filterSportData items selectedSport options =
     filterBySport items
       \<lparr>opt_sport = selectedSport,
        includeAll = Some True,
        caseSensitive = Some (default_to False (sd_caseSensitive options)),
        allowPartialMatch = Some (default_to True (sd_allowPartialMatch options)),
        mapSportNames =
          Some (if default_to True (useCommonMappings options)
                then COMMON_SPORT_MAPPINGS else [])\<rparr>"

text \<open>
  \<open>Array.prototype.sort\<close> with a comparator, as a stable insertion sort. The comparator
  returns a number, \<open>None\<close> standing for \<open>NaN\<close>, which the sort reads as \<open>0\<close>. For a
  consistent comparator the result is the one every engine returns; for an inconsistent
  one the language leaves the order to the engine, and the model is one such order.
\<close>

definition SortCompare :: "('a \<Rightarrow> 'a \<Rightarrow> rat option) \<Rightarrow> 'a \<Rightarrow> 'a \<Rightarrow> rat" where
  "SortCompare comparefn x y = (case comparefn x y of None \<Rightarrow> 0 | Some v \<Rightarrow> v)"

fun insert_sorted :: "('a \<Rightarrow> 'a \<Rightarrow> rat option) \<Rightarrow> 'a \<Rightarrow> 'a list \<Rightarrow> 'a list" where
  "insert_sorted comparefn x [] = [x]"
| "insert_sorted comparefn x (y # ys) =
     (if SortCompare comparefn x y \<le> 0 then x # y # ys
      else y # insert_sorted comparefn x ys)"

definition array_sort :: "('a \<Rightarrow> 'a \<Rightarrow> rat option) \<Rightarrow> 'a list \<Rightarrow> 'a list" where
  "array_sort comparefn xs = foldr (insert_sorted comparefn) xs []"

text \<open>
  A \<open>Set\<close> of strings, as the list of its elements in insertion order; \<open>Set_add\<close> is
  \<open>Set.prototype.add\<close> and \<open>Array.from\<close> of the set is the list itself.
\<close>

definition Set_add :: "'a list \<Rightarrow> 'a \<Rightarrow> 'a list" where
  "Set_add s x = (if x \<in> set s then s else s @ [x])"

record UniqueSportsOptions =
  us_includeAll :: "bool option"
  us_normalize :: "bool option"
  us_sort :: "bool option"

definition default_unique_options :: UniqueSportsOptions where
  "default_unique_options = \<lparr>us_includeAll = None, us_normalize = None, us_sort = None\<rparr>"

text \<open>
  \<open>extractUniqueSports\<close>. \<open>String.prototype.localeCompare\<close> is the platform's collation
  and is a parameter.
\<close>

definition extractUniqueSports ::
  "(string \<Rightarrow> string \<Rightarrow> int) \<Rightarrow> 'a SportFilterable_scheme list \<Rightarrow> UniqueSportsOptions \<Rightarrow>
   string list" where
  "extractUniqueSports localeCompare items options =
     (let incl = default_to True (us_includeAll options);
          normalize = default_to True (us_normalize options);
          srt = default_to True (us_sort options);
          sportsSet =
            foldl (\<lambda>s item.
                     if sport item \<noteq> []
                     then Set_add s (if normalize then normalizeSportId (sport item)
                                     else sport item)
                     else s)
                  [] items;
          sports = (if incl then UNIFIED_SPORTS_ALL # sportsSet else sportsSet)
      in if srt
         then array_sort
                (\<lambda>a b. if a = UNIFIED_SPORTS_ALL then Some (- 1)
                        else if b = UNIFIED_SPORTS_ALL then Some 1
                        else Some (of_int (localeCompare a b)))
                sports
         else sports)"

text \<open>A sample collation for concrete runs: code units compared from the left.\<close>

fun compare_code_units :: "string \<Rightarrow> string \<Rightarrow> int" where
  "compare_code_units [] [] = 0"
| "compare_code_units [] (d # ds) = - 1"
| "compare_code_units (c # cs) [] = 1"
| "compare_code_units (c # cs) (d # ds) =
     (if (of_char c :: nat) < of_char d then - 1
      else if (of_char d :: nat) < of_char c then 1
      else compare_code_units cs ds)"

section \<open>The cache of the unified data service\<close>

text \<open>
  A cache entry \<open>{data, timestamp, ttl}\<close>; times are epoch milliseconds, as \<open>Date.now()\<close>
  returns them. The cache is a \<open>Map\<close> from key strings to entries. Every function that
  reads the clock takes the reading \<open>now\<close> as an argument.
\<close>

record 'd CacheEntry =
  entry_data :: 'd
  entry_timestamp :: int
  entry_ttl :: int

type_synonym 'd Cache = "string \<rightharpoonup> 'd CacheEntry"

definition CACHE_TTL :: int where
  "CACHE_TTL = 5 * 60 * 1000"

definition isValidCacheEntry :: "int \<Rightarrow> 'd CacheEntry \<Rightarrow> bool" where
  "isValidCacheEntry now entry = (now - entry_timestamp entry < entry_ttl entry)"

definition setCache :: "int \<Rightarrow> string \<Rightarrow> 'd \<Rightarrow> int \<Rightarrow> 'd Cache \<Rightarrow> 'd Cache" where
  "setCache now key d ttl c = c(key \<mapsto> \<lparr>entry_data = d, entry_timestamp = now, entry_ttl = ttl\<rparr>)"

text \<open>
  \<open>getFromCache\<close> returns the data of a valid entry, or \<open>null\<close> (here \<open>None\<close>) after
  deleting an entry that is there and not valid; the cache it leaves is the second
  component.
\<close>

definition getFromCache :: "int \<Rightarrow> string \<Rightarrow> 'd Cache \<Rightarrow> 'd option \<times> 'd Cache" where
  "getFromCache now key c =
     (case c key of
        None \<Rightarrow> (None, c)
      | Some entry \<Rightarrow>
          if isValidCacheEntry now entry then (Some (entry_data entry), c)
          else (None, c(key := None)))"

section \<open>The unified data service (facade)\<close>

subsection \<open>Data\<close>

text \<open>
  Numbers are rationals: the facade copies, compares and scales the numbers of the
  provider's JSON (which has no \<open>NaN\<close> and no infinity). \<open>maxResults\<close> is a count and is an
  integer. An optional field that is absent (or \<open>undefined\<close>, or \<open>null\<close>) is \<open>None\<close>.
\<close>

datatype SortOrder = asc | desc

record UnifiedDataFilters =
  f_sport :: "string option"
  f_minConfidence :: "rat option"
  f_maxResults :: "int option"
  f_includeExpired :: "bool option"
  f_sortBy :: "string option"
  f_sortOrder :: "SortOrder option"

definition no_filters :: UnifiedDataFilters where
  "no_filters =
     \<lparr>f_sport = None, f_minConfidence = None, f_maxResults = None,
      f_includeExpired = None, f_sortBy = None, f_sortOrder = None\<rparr>"

record UnifiedBettingOpportunity = SportFilterable +
  opp_id :: string
  opp_game :: string
  opp_event :: string
  opp_market :: string
  opp_betType :: string
  opp_line :: rat
  opp_odds :: rat
  opp_bookmaker :: string
  opp_expectedValue :: rat
  opp_confidence :: rat
  opp_edge :: rat
  opp_stake :: "rat option"
  opp_potentialProfit :: "rat option"
  opp_riskLevel :: string
  opp_category :: string
  opp_expires :: string
  opp_timestamp :: int

record UnifiedPlayerProp = SportFilterable +
  prop_id :: string
  prop_player :: string
  prop_team :: string
  prop_position :: string
  prop_stat :: string
  prop_line :: rat
  prop_overOdds :: rat
  prop_underOdds :: rat
  prop_gameTime :: string
  prop_opponent :: string
  prop_confidence :: rat
  prop_projection :: rat
  prop_edge :: rat
  prop_pickType :: string
  prop_reasoning :: string
  prop_lastGameStats :: "rat list"
  prop_seasonAvg :: rat
  prop_recentForm :: string
  prop_injuryStatus :: string
  prop_weatherImpact :: "rat option"
  prop_homeAwayFactor :: rat
  prop_timestamp :: int

record 'a UnifiedApiResponse =
  success :: bool
  data :: "'a list option"
  count :: "nat option"
  filters :: "UnifiedDataFilters option"
  error :: "string option"
  timestamp :: int
  cached :: "bool option"

text \<open>
  The items of the provider's responses (\<open>opp: any\<close>, \<open>prop: any\<close>): the fields the
  transforms read, each optional, at the type the unified interface gives it.
\<close>

record ApiOpportunity =
  ro_id :: "string option"
  ro_sport :: "string option"
  ro_event :: "string option"
  ro_game :: "string option"
  ro_market :: "string option"
  ro_betType :: "string option"
  ro_line :: "rat option"
  ro_odds :: "rat option"
  ro_bookmaker :: "string option"
  ro_expectedValue :: "rat option"
  ro_edge :: "rat option"
  ro_confidence :: "rat option"
  ro_riskLevel :: "string option"
  ro_category :: "string option"
  ro_expires :: "string option"

record ApiProp =
  rp_id :: "string option"
  rp_player :: "string option"
  rp_team :: "string option"
  rp_position :: "string option"
  rp_stat :: "string option"
  rp_line :: "rat option"
  rp_overOdds :: "rat option"
  rp_underOdds :: "rat option"
  rp_gameTime :: "string option"
  rp_opponent :: "string option"
  rp_sport :: "string option"
  rp_confidence :: "rat option"
  rp_projection :: "rat option"
  rp_edge :: "rat option"
  rp_pickType :: "string option"
  rp_reasoning :: "string option"
  rp_lastGameStats :: "rat list option"
  rp_seasonAvg :: "rat option"
  rp_recentForm :: "string option"
  rp_injuryStatus :: "string option"
  rp_weatherImpact :: "rat option"
  rp_homeAwayFactor :: "rat option"

subsection \<open>The upstream client\<close>

text \<open>
  \<open>api.getBettingOpportunities\<close> and \<open>api.getPrizePicksProps\<close> belong to the production
  API service, which is outside these sources: the client is a parameter. A call returns
  a promise that rejects with some value or resolves to a response
  \<open>{success, data, error}\<close>.
\<close>

record OpportunitiesRequest =
  rq_sport :: string
  rq_minEdge :: rat
  rq_maxResults :: int

record PropsRequest =
  pq_sport :: string
  pq_minConfidence :: rat

record 'a ApiResponse =
  res_success :: bool
  res_data :: "'a list option"
  res_error :: "string option"

datatype 'a settled = Rejects thrown | Resolves 'a

record Api =
  api_getBettingOpportunities ::
    "OpportunitiesRequest \<Rightarrow> ApiOpportunity ApiResponse settled"
  api_getPrizePicksProps :: "PropsRequest \<Rightarrow> ApiProp ApiResponse settled"

datatype ApiCall =
  CallBettingOpportunities OpportunitiesRequest
| CallPrizePicksProps PropsRequest

subsection \<open>Platform functions\<close>

text \<open>
  A value read by a computed property name, \<open>(a as any)[sortBy]\<close>: \<open>JObject\<close> is any
  object or function that is neither a number, a string nor an array.
\<close>

datatype jsval = JUndefined | JNumber rat | JString string | JArray "rat list" | JObject

text \<open>
  What the facade takes from the platform and the model takes as parameters:
  \<open>JSON.stringify\<close> of a filter object; the text of the template
  \<open>`${prefix}${Date.now()}_${Math.random()}`\<close>, given the prefix, the clock and the
  position of the item (one draw of \<open>Math.random\<close> per item);
  \<open>Date.prototype.toISOString\<close> of a time; and the conversion \<open>ToNumber\<close> of a value that
  is not a number (\<open>None\<close> for \<open>NaN\<close>).
\<close>

record platform =
  stringify :: "UnifiedDataFilters \<Rightarrow> string"
  generated_id :: "string \<Rightarrow> int \<Rightarrow> nat \<Rightarrow> string"
  toISOString :: "int \<Rightarrow> string"
  toNumber :: "jsval \<Rightarrow> rat option"

subsection \<open>State\<close>

text \<open>
  The one \<open>Map\<close> of the service holds responses of both endpoints and the list of
  available sports (\<open>data: any\<close>). The state of the service is its cache, together with
  the log of the requests it has sent upstream.
\<close>

datatype payload =
  OpportunitiesPayload "UnifiedBettingOpportunity UnifiedApiResponse"
| PropsPayload "UnifiedPlayerProp UnifiedApiResponse"
| SportsPayload "string list"

record UnifiedDataService =
  cache :: "payload Cache"
  upstream_calls :: "ApiCall list"

definition new_service :: UnifiedDataService where
  "new_service = \<lparr>cache = Map.empty, upstream_calls = []\<rparr>"

subsection \<open>Helpers of the transforms\<close>

text \<open>\<open>a || d\<close> on an optional string and on an optional number.\<close>

definition or_str :: "string option \<Rightarrow> string \<Rightarrow> string" where
  "or_str a d = (case a of None \<Rightarrow> d | Some s \<Rightarrow> if s \<noteq> [] then s else d)"

definition or_num :: "rat option \<Rightarrow> rat \<Rightarrow> rat" where
  "or_num a d = (case a of None \<Rightarrow> d | Some v \<Rightarrow> if v \<noteq> 0 then v else d)"

text \<open>The items of an array with their positions, as \<open>Array.prototype.map\<close> visits them.\<close>

definition indexed :: "'a list \<Rightarrow> (nat \<times> 'a) list" where
  "indexed xs = zip [0..<length xs] xs"

text \<open>\<open>xs.slice(0, n)\<close>: a negative \<open>n\<close> counts from the end.\<close>

definition slice_to :: "int \<Rightarrow> 'a list \<Rightarrow> 'a list" where
  "slice_to n xs =
     (if n < 0 then take (nat (int (length xs) + n)) xs else take (nat n) xs)"

text \<open>Truthiness, \<open>v || 0\<close>, and the subtraction \<open>b - a\<close> of two values.\<close>

fun truthy :: "jsval \<Rightarrow> bool" where
  "truthy JUndefined = False"
| "truthy (JNumber r) = (r \<noteq> 0)"
| "truthy (JString s) = (s \<noteq> [])"
| "truthy (JArray xs) = True"
| "truthy JObject = True"

definition or_zero :: "jsval \<Rightarrow> jsval" where
  "or_zero v = (if truthy v then v else JNumber 0)"

fun to_number :: "platform \<Rightarrow> jsval \<Rightarrow> rat option" where
  "to_number pf (JNumber r) = Some r"
| "to_number pf v = toNumber pf v"

definition subtract :: "platform \<Rightarrow> jsval \<Rightarrow> jsval \<Rightarrow> rat option" where
  "subtract pf b a =
     (case to_number pf b of
        None \<Rightarrow> None
      | Some y \<Rightarrow> (case to_number pf a of None \<Rightarrow> None | Some x \<Rightarrow> Some (y - x)))"

text \<open>
  The comparator of both sorts: \<open>(bVal - aVal) * direction\<close> with
  \<open>direction = sortOrder === "asc" ? 1 : -1\<close>.
\<close>

definition sort_comparator ::
  "platform \<Rightarrow> (string \<Rightarrow> 'a \<Rightarrow> jsval) \<Rightarrow> string \<Rightarrow> SortOrder option \<Rightarrow> 'a \<Rightarrow> 'a \<Rightarrow> rat option" where
  "sort_comparator pf read sortBy ord a b =
     (let aVal = or_zero (read sortBy a);
          bVal = or_zero (read sortBy b);
          direction = (if ord = Some asc then 1 else - 1)
      in map_option (\<lambda>d. d * direction) (subtract pf bVal aVal))"

definition inherited_or_undefined :: "string \<Rightarrow> jsval" where
  "inherited_or_undefined k = (if k \<in> set Object_prototype_keys then JObject else JUndefined)"

definition opt_number :: "rat option \<Rightarrow> jsval" where
  "opt_number v = (case v of None \<Rightarrow> JUndefined | Some r \<Rightarrow> JNumber r)"

text \<open>The property of a unified record named by a string.\<close>

definition opportunity_property :: "string \<Rightarrow> UnifiedBettingOpportunity \<Rightarrow> jsval" where
  "opportunity_property k a =
     (if k = ''id'' then JString (opp_id a)
      else if k = ''sport'' then JString (sport a)
      else if k = ''game'' then JString (opp_game a)
      else if k = ''event'' then JString (opp_event a)
      else if k = ''market'' then JString (opp_market a)
      else if k = ''betType'' then JString (opp_betType a)
      else if k = ''line'' then JNumber (opp_line a)
      else if k = ''odds'' then JNumber (opp_odds a)
      else if k = ''bookmaker'' then JString (opp_bookmaker a)
      else if k = ''expectedValue'' then JNumber (opp_expectedValue a)
      else if k = ''confidence'' then JNumber (opp_confidence a)
      else if k = ''edge'' then JNumber (opp_edge a)
      else if k = ''stake'' then opt_number (opp_stake a)
      else if k = ''potentialProfit'' then opt_number (opp_potentialProfit a)
      else if k = ''riskLevel'' then JString (opp_riskLevel a)
      else if k = ''category'' then JString (opp_category a)
      else if k = ''expires'' then JString (opp_expires a)
      else if k = ''timestamp'' then JNumber (of_int (opp_timestamp a))
      else inherited_or_undefined k)"

definition prop_property :: "string \<Rightarrow> UnifiedPlayerProp \<Rightarrow> jsval" where
  "prop_property k a =
     (if k = ''id'' then JString (prop_id a)
      else if k = ''player'' then JString (prop_player a)
      else if k = ''team'' then JString (prop_team a)
      else if k = ''position'' then JString (prop_position a)
      else if k = ''stat'' then JString (prop_stat a)
      else if k = ''line'' then JNumber (prop_line a)
      else if k = ''overOdds'' then JNumber (prop_overOdds a)
      else if k = ''underOdds'' then JNumber (prop_underOdds a)
      else if k = ''gameTime'' then JString (prop_gameTime a)
      else if k = ''opponent'' then JString (prop_opponent a)
      else if k = ''sport'' then JString (sport a)
      else if k = ''confidence'' then JNumber (prop_confidence a)
      else if k = ''projection'' then JNumber (prop_projection a)
      else if k = ''edge'' then JNumber (prop_edge a)
      else if k = ''pickType'' then JString (prop_pickType a)
      else if k = ''reasoning'' then JString (prop_reasoning a)
      else if k = ''lastGameStats'' then JArray (prop_lastGameStats a)
      else if k = ''seasonAvg'' then JNumber (prop_seasonAvg a)
      else if k = ''recentForm'' then JString (prop_recentForm a)
      else if k = ''injuryStatus'' then JString (prop_injuryStatus a)
      else if k = ''weatherImpact'' then opt_number (prop_weatherImpact a)
      else if k = ''homeAwayFactor'' then JNumber (prop_homeAwayFactor a)
      else if k = ''timestamp'' then JNumber (of_int (prop_timestamp a))
      else inherited_or_undefined k)"

subsection \<open>The transforms\<close>

definition transformOpportunity ::
  "platform \<Rightarrow> int \<Rightarrow> nat \<times> ApiOpportunity \<Rightarrow> UnifiedBettingOpportunity" where
  "transformOpportunity pf now ip =
     (let i = fst ip; opp = snd ip
      in \<lparr>sport = or_str (ro_sport opp) ''unknown'',
          opp_id = or_str (ro_id opp) (generated_id pf ''bet_'' now i),
          opp_game = or_str (ro_event opp) (or_str (ro_game opp) ''Unknown Game''),
          opp_event = or_str (ro_event opp) (or_str (ro_game opp) ''Unknown Event''),
          opp_market = or_str (ro_market opp) ''Unknown Market'',
          opp_betType = or_str (ro_market opp) (or_str (ro_betType opp) ''Unknown Bet''),
          opp_line = or_num (ro_line opp) (or_num (ro_odds opp) 0),
          opp_odds = or_num (ro_odds opp) (- 110),
          opp_bookmaker = or_str (ro_bookmaker opp) ''DraftKings'',
          opp_expectedValue = or_num (ro_expectedValue opp) (or_num (ro_edge opp) 0) * 100,
          opp_confidence = or_num (ro_confidence opp) 75,
          opp_edge = or_num (ro_expectedValue opp) (or_num (ro_edge opp) 0) * 100,
          opp_stake = Some 0,
          opp_potentialProfit = Some 0,
          opp_riskLevel = or_str (ro_riskLevel opp) ''medium'',
          opp_category = or_str (ro_category opp) ''value'',
          opp_expires =
            or_str (ro_expires opp) (toISOString pf (now + 24 * 60 * 60 * 1000)),
          opp_timestamp = now\<rparr>)"

definition transformProp :: "platform \<Rightarrow> int \<Rightarrow> nat \<times> ApiProp \<Rightarrow> UnifiedPlayerProp" where
  "transformProp pf now ip =
     (let i = fst ip; prop = snd ip
      in \<lparr>sport = or_str (rp_sport prop) ''nba'',
          prop_id = or_str (rp_id prop) (generated_id pf ''prop_'' now i),
          prop_player = or_str (rp_player prop) ''Unknown Player'',
          prop_team = or_str (rp_team prop) ''Unknown Team'',
          prop_position = or_str (rp_position prop) ''Unknown'',
          prop_stat = or_str (rp_stat prop) ''Points'',
          prop_line = or_num (rp_line prop) 0,
          prop_overOdds = or_num (rp_overOdds prop) (- 110),
          prop_underOdds = or_num (rp_underOdds prop) (- 110),
          prop_gameTime = or_str (rp_gameTime prop) (toISOString pf now),
          prop_opponent = or_str (rp_opponent prop) ''Unknown Opponent'',
          prop_confidence = or_num (rp_confidence prop) 75,
          prop_projection = or_num (rp_projection prop) (or_num (rp_line prop) 0),
          prop_edge = or_num (rp_edge prop) 5,
          prop_pickType = or_str (rp_pickType prop) ''normal'',
          prop_reasoning = or_str (rp_reasoning prop) ''No reasoning provided'',
          prop_lastGameStats = default_to [] (rp_lastGameStats prop),
          prop_seasonAvg = or_num (rp_seasonAvg prop) (or_num (rp_line prop) 0),
          prop_recentForm = or_str (rp_recentForm prop) ''neutral'',
          prop_injuryStatus = or_str (rp_injuryStatus prop) ''healthy'',
          prop_weatherImpact = rp_weatherImpact prop,
          prop_homeAwayFactor = or_num (rp_homeAwayFactor prop) 1,
          prop_timestamp = now\<rparr>)"

subsection \<open>The methods\<close>

definition getCacheKey :: "platform \<Rightarrow> string \<Rightarrow> UnifiedDataFilters \<Rightarrow> string" where
  "getCacheKey pf endpoint params = endpoint @ '':'' @ stringify pf params"

text \<open>
  \<open>filters.sport ? normalizeSportFilter(filters.sport) : UNIFIED_SPORTS.ALL\<close>, the sport
  both requests carry.
\<close>

definition normalizedSport :: "UnifiedDataFilters \<Rightarrow> string" where
  "normalizedSport fs =
     (case f_sport fs of
        None \<Rightarrow> UNIFIED_SPORTS_ALL
      | Some s \<Rightarrow> if s \<noteq> [] then normalizeSportFilter s else UNIFIED_SPORTS_ALL)"

definition opportunities_request :: "UnifiedDataFilters \<Rightarrow> OpportunitiesRequest" where
  "opportunities_request fs =
     \<lparr>rq_sport = normalizedSport fs,
      rq_minEdge = 2,
      rq_maxResults = (case f_maxResults fs of
                         None \<Rightarrow> 50
                       | Some n \<Rightarrow> if n \<noteq> 0 then n else 50)\<rparr>"

definition props_request :: "UnifiedDataFilters \<Rightarrow> PropsRequest" where
  "props_request fs =
     \<lparr>pq_sport = normalizedSport fs,
      pq_minConfidence = or_num (f_minConfidence fs) 70\<rparr>"

text \<open>
  The awaited call and the check after it: a rejection is thrown on, and so is
  \<open>new Error(response.error || fallback)\<close> when \<open>!response.success || !response.data\<close>.
\<close>

definition checked_data :: "string \<Rightarrow> 'a ApiResponse settled \<Rightarrow> thrown + 'a list" where
  "checked_data fallback outcome =
     (case outcome of
        Rejects e \<Rightarrow> Inl e
      | Resolves response \<Rightarrow>
          if res_success response
          then (case res_data response of
                  None \<Rightarrow> Inl (ErrorObject (Error (or_str (res_error response) fallback)))
                | Some d \<Rightarrow> Inr d)
          else Inl (ErrorObject (Error (or_str (res_error response) fallback))))"

text \<open>
  The four steps both methods apply to the transformed items, in the source's order:
  the sport filter, the confidence filter, the sort and the result limit. \<open>read\<close> is the
  record's property access and \<open>conf\<close> its confidence field.
\<close>

definition applySportFilter ::
  "UnifiedDataFilters \<Rightarrow> 'a SportFilterable_scheme list \<Rightarrow>
   js_error + 'a SportFilterable_scheme list" where
  "applySportFilter fs items =
     (case f_sport fs of
        None \<Rightarrow> Inr items
      | Some s \<Rightarrow>
          if s \<noteq> [] \<and> s \<noteq> UNIFIED_SPORTS_ALL
          then filterSportData items s
                 \<lparr>useCommonMappings = Some True, sd_allowPartialMatch = Some True,
                  sd_caseSensitive = Some False\<rparr>
          else Inr items)"

definition applyConfidenceFilter :: "('a \<Rightarrow> rat) \<Rightarrow> UnifiedDataFilters \<Rightarrow> 'a list \<Rightarrow> 'a list" where
  "applyConfidenceFilter conf fs items =
     (case f_minConfidence fs of
        None \<Rightarrow> items
      | Some m \<Rightarrow> if m \<noteq> 0 then filter (\<lambda>x. conf x \<ge> m) items else items)"

definition applySorting ::
  "platform \<Rightarrow> (string \<Rightarrow> 'a \<Rightarrow> jsval) \<Rightarrow> UnifiedDataFilters \<Rightarrow> 'a list \<Rightarrow> 'a list" where
  "applySorting pf read fs items =
     (case f_sortBy fs of
        None \<Rightarrow> items
      | Some k \<Rightarrow>
          if k \<noteq> [] then array_sort (sort_comparator pf read k (f_sortOrder fs)) items
          else items)"

definition applyResultLimit :: "UnifiedDataFilters \<Rightarrow> 'a list \<Rightarrow> 'a list" where
  "applyResultLimit fs items =
     (case f_maxResults fs of
        None \<Rightarrow> items
      | Some n \<Rightarrow> if n \<noteq> 0 then slice_to n items else items)"

definition refine ::
  "platform \<Rightarrow> (string \<Rightarrow> 'a SportFilterable_scheme \<Rightarrow> jsval) \<Rightarrow>
   ('a SportFilterable_scheme \<Rightarrow> rat) \<Rightarrow> UnifiedDataFilters \<Rightarrow>
   'a SportFilterable_scheme list \<Rightarrow> thrown + 'a SportFilterable_scheme list" where
  "refine pf read conf fs items =
     (case applySportFilter fs items of
        Inl e \<Rightarrow> Inl (ErrorObject e)
      | Inr by_sport \<Rightarrow>
          Inr (applyResultLimit fs
                 (applySorting pf read fs (applyConfidenceFilter conf fs by_sport))))"

text \<open>
  The body of the \<open>try\<close> block up to the result list. \<open>now\<close> is the clock once the upstream
  promise has settled; the readings of \<open>Date.now()\<close> after that point are taken as one.
\<close>

definition fetchBettingOpportunities ::
  "platform \<Rightarrow> Api \<Rightarrow> int \<Rightarrow> UnifiedDataFilters \<Rightarrow> thrown + UnifiedBettingOpportunity list" where
  "fetchBettingOpportunities pf api now fs =
     (case checked_data ''Failed to fetch betting opportunities''
             (api_getBettingOpportunities api (opportunities_request fs)) of
        Inl e \<Rightarrow> Inl e
      | Inr d \<Rightarrow>
          refine pf opportunity_property opp_confidence fs
            (map (transformOpportunity pf now) (indexed d)))"

definition fetchPlayerProps ::
  "platform \<Rightarrow> Api \<Rightarrow> int \<Rightarrow> UnifiedDataFilters \<Rightarrow> thrown + UnifiedPlayerProp list" where
  "fetchPlayerProps pf api now fs =
     (case checked_data ''Failed to fetch player props''
             (api_getPrizePicksProps api (props_request fs)) of
        Inl e \<Rightarrow> Inl e
      | Inr d \<Rightarrow>
          refine pf prop_property prop_confidence fs
            (map (transformProp pf now) (indexed d)))"

definition success_response :: "'a list \<Rightarrow> UnifiedDataFilters \<Rightarrow> int \<Rightarrow> 'a UnifiedApiResponse" where
  "success_response items fs now =
     \<lparr>success = True, data = Some items, count = Some (length items), filters = Some fs,
      error = None, timestamp = now, cached = None\<rparr>"

definition failure_response :: "string option \<Rightarrow> int \<Rightarrow> 'a UnifiedApiResponse" where
  "failure_response m now =
     \<lparr>success = False, data = Some [], count = Some 0, filters = None,
      error = m, timestamp = now, cached = None\<rparr>"

text \<open>
  The \<open>catch\<close> block of both methods: it logs, and returns the failure response with
  \<open>(error as Error).message\<close>. When reading the message throws, the exception leaves the
  method, and the promise the method returned rejects.
\<close>

definition catch_block :: "thrown \<Rightarrow> int \<Rightarrow> 'a UnifiedApiResponse settled" where
  "catch_block e now =
     (case read_message e of
        Inl t \<Rightarrow> Rejects (ErrorObject t)
      | Inr m \<Rightarrow> Resolves (failure_response m now))"

text \<open>
  \<open>getFromCache<T>\<close> casts the stored data without a check. The keys of the three
  methods differ in their first character, and each method stores only its own kind of
  data under its own keys, so a cache built by the service never holds another kind
  under a method's key (\<open>well_typed\<close> below, kept by every method). For a cache that does,
  the typed model has no value to return; \<open>untyped_hit\<close> marks that case.
\<close>

definition untyped_hit :: "'a UnifiedApiResponse" where
  "untyped_hit =
     \<lparr>success = False, data = None, count = None, filters = None, error = None,
      timestamp = 0, cached = Some True\<rparr>"

text \<open>
  \<open>getBettingOpportunities(filters)\<close>, from the state \<open>svc\<close>: \<open>t0\<close> is the clock at the
  cache lookup, \<open>t1\<close> the clock once the upstream promise has settled. The result is how
  the returned promise settles, with the state the call leaves.
\<close>

definition getBettingOpportunities ::
  "platform \<Rightarrow> Api \<Rightarrow> int \<Rightarrow> int \<Rightarrow> UnifiedDataFilters \<Rightarrow> UnifiedDataService \<Rightarrow>
   UnifiedBettingOpportunity UnifiedApiResponse settled \<times> UnifiedDataService" where
  "getBettingOpportunities pf api t0 t1 fs svc =
     (let cacheKey = getCacheKey pf ''betting-opportunities'' fs;
          looked = getFromCache t0 cacheKey (cache svc)
      in case fst looked of
           Some (OpportunitiesPayload r) \<Rightarrow> (Resolves (r\<lparr>cached := Some True\<rparr>), svc)
         | Some stored \<Rightarrow> (Resolves untyped_hit, svc)
         | None \<Rightarrow>
             (let svc1 = svc\<lparr>cache := snd looked,
                             upstream_calls := upstream_calls svc @
                               [CallBettingOpportunities (opportunities_request fs)]\<rparr>
              in case fetchBettingOpportunities pf api t1 fs of
                   Inr opportunities \<Rightarrow>
                     (let result = success_response opportunities fs t1
                      in (Resolves result,
                          svc1\<lparr>cache := setCache t1 cacheKey (OpportunitiesPayload result)
                                           CACHE_TTL (cache svc1)\<rparr>))
                 | Inl e \<Rightarrow> (catch_block e t1, svc1)))"

definition getPlayerProps ::
  "platform \<Rightarrow> Api \<Rightarrow> int \<Rightarrow> int \<Rightarrow> UnifiedDataFilters \<Rightarrow> UnifiedDataService \<Rightarrow>
   UnifiedPlayerProp UnifiedApiResponse settled \<times> UnifiedDataService" where
  "getPlayerProps pf api t0 t1 fs svc =
     (let cacheKey = getCacheKey pf ''player-props'' fs;
          looked = getFromCache t0 cacheKey (cache svc)
      in case fst looked of
           Some (PropsPayload r) \<Rightarrow> (Resolves (r\<lparr>cached := Some True\<rparr>), svc)
         | Some stored \<Rightarrow> (Resolves untyped_hit, svc)
         | None \<Rightarrow>
             (let svc1 = svc\<lparr>cache := snd looked,
                             upstream_calls := upstream_calls svc @
                               [CallPrizePicksProps (props_request fs)]\<rparr>
              in case fetchPlayerProps pf api t1 fs of
                   Inr props \<Rightarrow>
                     (let result = success_response props fs t1
                      in (Resolves result,
                          svc1\<lparr>cache := setCache t1 cacheKey (PropsPayload result)
                                           CACHE_TTL (cache svc1)\<rparr>))
                 | Inl e \<Rightarrow> (catch_block e t1, svc1)))"

text \<open>
  The list the \<open>catch\<close> block of \<open>getAvailableSports\<close> returns.
\<close>

definition fallback_sports :: "string list" where
  "fallback_sports =
     [UNIFIED_SPORTS_ALL, UNIFIED_SPORTS_NBA, UNIFIED_SPORTS_NFL, UNIFIED_SPORTS_MLB,
      UNIFIED_SPORTS_NHL, UNIFIED_SPORTS_SOCCER]"

definition add_sports :: "string list \<Rightarrow> 'a SportFilterable_scheme list option \<Rightarrow> string list" where
  "add_sports s d = (case d of None \<Rightarrow> s | Some items \<Rightarrow> foldl (\<lambda>s item. Set_add s (sport item)) s items)"

text \<open>
  \<open>getAvailableSports()\<close>. \<open>t0\<close> is the clock at the lookups (the two inner calls start
  in the same synchronous run), \<open>tb\<close> and \<open>tp\<close> the clock when the inner call for betting
  opportunities and for player props settles, \<open>t3\<close> the clock at the final store. The two
  inner calls run concurrently; they use different cache keys and send their requests in
  the order written, so running one after the other leaves the same state. \<open>Promise.all\<close>
  rejects when an inner promise rejects, and then the \<open>catch\<close> block returns
  \<open>fallback_sports\<close>; the other inner call still runs to its end, and the state is the one
  both calls leave. An inner promise rejects with the \<open>TypeError\<close> of its own \<open>catch\<close> block
  only, which is an error object, so the \<open>catch\<close> block here does not throw. Stored data
  of another kind under the key is the case \<open>untyped_hit\<close> stands for in the other methods.
\<close>

definition getAvailableSports ::
  "platform \<Rightarrow> Api \<Rightarrow> int \<Rightarrow> int \<Rightarrow> int \<Rightarrow> int \<Rightarrow> UnifiedDataService \<Rightarrow>
   string list \<times> UnifiedDataService" where
  "getAvailableSports pf api t0 tb tp t3 svc =
     (let cacheKey = ''available-sports'';
          looked = getFromCache t0 cacheKey (cache svc)
      in case fst looked of
           Some (SportsPayload sports) \<Rightarrow> (sports, svc)
         | Some stored \<Rightarrow> ([], svc)
         | None \<Rightarrow>
             (let svc0 = svc\<lparr>cache := snd looked\<rparr>;
                  betting = getBettingOpportunities pf api t0 tb
                              (no_filters\<lparr>f_maxResults := Some 100\<rparr>) svc0;
                  props = getPlayerProps pf api t0 tp
                            (no_filters\<lparr>f_maxResults := Some 100\<rparr>) (snd betting);
                  svc2 = snd props
              in case fst betting of
                   Rejects e \<Rightarrow> (fallback_sports, svc2)
                 | Resolves bettingResponse \<Rightarrow>
                     (case fst props of
                        Rejects e \<Rightarrow> (fallback_sports, svc2)
                      | Resolves propsResponse \<Rightarrow>
                          (let sportsSet = add_sports (add_sports [] (data bettingResponse))
                                             (data propsResponse);
                               availableSports = UNIFIED_SPORTS_ALL # sportsSet
                           in (availableSports,
                               svc2\<lparr>cache := setCache t3 cacheKey (SportsPayload availableSports)
                                                (2 * 60 * 1000) (cache svc2)\<rparr>)))))"

definition clearCache :: "UnifiedDataService \<Rightarrow> UnifiedDataService" where
  "clearCache svc = svc\<lparr>cache := Map.empty\<rparr>"

subsection \<open>Failing upstream clients and the states they lead to\<close>

text \<open>
  A settled upstream call has failed when the promise rejected, or resolved to a
  response that the check after the call refuses.
\<close>

definition failed :: "'a ApiResponse settled \<Rightarrow> bool" where
  "failed outcome =
     (case outcome of
        Rejects e \<Rightarrow> True
      | Resolves response \<Rightarrow> (if res_success response then res_data response = None else True))"

definition always_fails :: "Api \<Rightarrow> bool" where
  "always_fails api =
     ((\<forall>rq. failed (api_getBettingOpportunities api rq)) \<and>
      (\<forall>rq. failed (api_getPrizePicksProps api rq)))"

text \<open>A client none of whose calls rejects with \<open>null\<close> or \<open>undefined\<close>.\<close>

definition rejects_with_values :: "Api \<Rightarrow> bool" where
  "rejects_with_values api =
     ((\<forall>rq. api_getBettingOpportunities api rq \<noteq> Rejects NullOrUndefined) \<and>
      (\<forall>rq. api_getPrizePicksProps api rq \<noteq> Rejects NullOrUndefined))"

text \<open>
  What the \<open>try\<close> block throws when the upstream call has failed: the value the promise
  rejected with, or the error made from the response the check refused.
\<close>

definition thrown_by :: "string \<Rightarrow> 'a ApiResponse settled \<Rightarrow> thrown" where
  "thrown_by fallback outcome =
     (case outcome of
        Rejects e \<Rightarrow> e
      | Resolves response \<Rightarrow> ErrorObject (Error (or_str (res_error response) fallback)))"

text \<open>
  The message a failed upstream call leaves for the failure response: from the value the
  promise rejected with, or from the response the check refused.
\<close>

definition failure_message :: "string \<Rightarrow> 'a ApiResponse settled \<Rightarrow> string option" where
  "failure_message fallback outcome =
     (case outcome of
        Rejects (ErrorObject e) \<Rightarrow> Some (message e)
      | Rejects v \<Rightarrow> None
      | Resolves response \<Rightarrow> Some (or_str (res_error response) fallback))"

text \<open>
  The states of a service whose upstream client has failed on every call since the
  service was constructed: any sequence of calls of its public methods, at any times and
  with any filters.
\<close>

inductive reachable_failing :: "platform \<Rightarrow> UnifiedDataService \<Rightarrow> bool" for pf :: platform where
  constructed: "reachable_failing pf new_service"
| after_opportunities:
    "reachable_failing pf svc \<Longrightarrow> always_fails api \<Longrightarrow>
     reachable_failing pf (snd (getBettingOpportunities pf api t0 t1 fs svc))"
| after_props:
    "reachable_failing pf svc \<Longrightarrow> always_fails api \<Longrightarrow>
     reachable_failing pf (snd (getPlayerProps pf api t0 t1 fs svc))"
| after_sports:
    "reachable_failing pf svc \<Longrightarrow> always_fails api \<Longrightarrow>
     reachable_failing pf (snd (getAvailableSports pf api t0 tb tp t3 svc))"
| after_clear:
    "reachable_failing pf svc \<Longrightarrow> reachable_failing pf (clearCache svc)"

text \<open>Each kind of stored data sits under the keys of the method that stores it.\<close>

definition well_typed :: "payload Cache \<Rightarrow> bool" where
  "well_typed c =
     (\<forall>k e. c k = Some e \<longrightarrow>
        (case entry_data e of
           OpportunitiesPayload r \<Rightarrow> startsWith k ''betting-opportunities:''
         | PropsPayload r \<Rightarrow> startsWith k ''player-props:''
         | SportsPayload xs \<Rightarrow> k = ''available-sports''))"

text \<open>
  The caches a failing upstream leaves: nothing but the list of available sports, and
  that list holding the wildcard alone.
\<close>

definition only_wildcard :: "payload Cache \<Rightarrow> bool" where
  "only_wildcard c =
     (\<forall>k e. c k = Some e \<longrightarrow>
        k = ''available-sports'' \<and> entry_data e = SportsPayload [''all''])"

subsection \<open>Sample inputs\<close>

definition sample_platform :: platform where
  "sample_platform =
     \<lparr>stringify = (\<lambda>fs. ''{}''),
      generated_id = (\<lambda>prefix now i. prefix @ ''0_0''),
      toISOString = (\<lambda>t. ''1970-01-01T00:00:00.000Z''),
      toNumber = (\<lambda>v. None)\<rparr>"

text \<open>A client whose every call rejects.\<close>

definition api_down :: Api where
  "api_down =
     \<lparr>api_getBettingOpportunities = (\<lambda>rq. Rejects (ErrorObject (Error ''Network Error''))),
      api_getPrizePicksProps = (\<lambda>rq. Rejects (ErrorObject (Error ''Network Error'')))\<rparr>"

definition empty_prop :: ApiProp where
  "empty_prop =
     \<lparr>rp_id = None, rp_player = None, rp_team = None, rp_position = None, rp_stat = None,
      rp_line = None, rp_overOdds = None, rp_underOdds = None, rp_gameTime = None,
      rp_opponent = None, rp_sport = None, rp_confidence = None, rp_projection = None,
      rp_edge = None, rp_pickType = None, rp_reasoning = None, rp_lastGameStats = None,
      rp_seasonAvg = None, rp_recentForm = None, rp_injuryStatus = None,
      rp_weatherImpact = None, rp_homeAwayFactor = None\<rparr>"

text \<open>
  A client whose props endpoint returns two props, of confidence 99 and 10, and the two
  records the transform makes of them at time 1.
\<close>

definition two_props :: "ApiProp list" where
  "two_props =
     [empty_prop\<lparr>rp_id := Some ''a'', rp_confidence := Some 99\<rparr>,
      empty_prop\<lparr>rp_id := Some ''b'', rp_confidence := Some 10\<rparr>]"

definition two_props_response :: "ApiProp ApiResponse" where
  "two_props_response = \<lparr>res_success = True, res_data = Some two_props, res_error = None\<rparr>"

definition api_two_props :: Api where
  "api_two_props =
     \<lparr>api_getBettingOpportunities = (\<lambda>rq. Rejects (ErrorObject (Error ''Network Error''))),
      api_getPrizePicksProps = (\<lambda>rq. Resolves two_props_response)\<rparr>"

definition two_unified_props :: "UnifiedPlayerProp list" where
  "two_unified_props = map (transformProp sample_platform 1) (indexed two_props)"

text \<open>
  A service that fetched an empty list of opportunities for the empty filter at time 0
  and has sent nothing since.
\<close>

definition stale_service :: UnifiedDataService where
  "stale_service =
     \<lparr>cache = setCache 0 ''betting-opportunities:{}''
                (OpportunitiesPayload (success_response [] no_filters 0)) CACHE_TTL Map.empty,
      upstream_calls = [CallBettingOpportunities (opportunities_request no_filters)]\<rparr>"

text \<open>A client whose props endpoint rejects and whose other endpoint reports a failure.\<close>

definition api_refusing :: Api where
  "api_refusing =
     \<lparr>api_getBettingOpportunities =
        (\<lambda>rq. Resolves \<lparr>res_success = False, res_data = None, res_error = Some ''quota exceeded''\<rparr>),
      api_getPrizePicksProps = (\<lambda>rq. Rejects (ErrorObject (Error ''Network Error'')))\<rparr>"

text \<open>A client whose every call rejects with \<open>undefined\<close>, as \<open>Promise.reject()\<close> does.\<close>

definition api_rejecting_undefined :: Api where
  "api_rejecting_undefined =
     \<lparr>api_getBettingOpportunities = (\<lambda>rq. Rejects NullOrUndefined),
      api_getPrizePicksProps = (\<lambda>rq. Rejects NullOrUndefined)\<rparr>"

text \<open>Three items tagged with registered ids.\<close>

definition three_items :: "SportFilterable list" where
  "three_items = [\<lparr>sport = ''nba''\<rparr>, \<lparr>sport = ''nfl''\<rparr>, \<lparr>sport = ''wnba''\<rparr>]"


section \<open>Properties of the sport normalizer and the sport filter\<close>

lemmas UNIFIED_SPORTS_defs =
  UNIFIED_SPORTS_ALL_def UNIFIED_SPORTS_NBA_def UNIFIED_SPORTS_WNBA_def
  UNIFIED_SPORTS_NFL_def UNIFIED_SPORTS_MLB_def UNIFIED_SPORTS_NHL_def
  UNIFIED_SPORTS_SOCCER_def UNIFIED_SPORTS_PGA_def UNIFIED_SPORTS_TENNIS_def
  UNIFIED_SPORTS_ESPORTS_def UNIFIED_SPORTS_MMA_def
  UNIFIED_SPORTS_COLLEGE_FOOTBALL_def UNIFIED_SPORTS_COLLEGE_BASKETBALL_def

text \<open>
  \<open>getSportConfig\<close> lower-cases its argument again; on a string that is already
  lower-cased and hyphenated this changes nothing, so the key looked up is that string.
\<close>

lemma toLowerChar_idem: "toLowerChar (toLowerChar c) = toLowerChar c"
proof -
  define n where "n = (of_char c :: nat)"
  show ?thesis
  proof (cases "(65 \<le> n \<and> n \<le> 90) \<or> (192 \<le> n \<and> n \<le> 222 \<and> n \<noteq> 215)")
    case True
    then have l: "toLowerChar c = char_of (n + 32)"
      by (simp add: toLowerChar_def Let_def n_def)
    from True have "(n + 32) mod 256 = n + 32" by auto
    then have m: "(of_char (char_of (n + 32)) :: nat) = n + 32" by simp
    have "toLowerChar (char_of (n + 32)) = char_of (n + 32)"
      unfolding toLowerChar_def Let_def m using True by auto
    then show ?thesis unfolding l .
  next
    case False
    then have "toLowerChar c = c" by (auto simp add: toLowerChar_def Let_def n_def)
    then show ?thesis by simp
  qed
qed

lemma toLowerChar_hyphen: "toLowerChar CHR ''-'' = CHR ''-''"
  by code_simp

lemma toLowerCase_normalized:
  "toLowerCase (hyphenate (toLowerCase x)) = hyphenate (toLowerCase x)"
  by (induction x) (simp_all add: toLowerCase_def hyphenate_def toLowerChar_idem toLowerChar_hyphen)




text \<open>
  Claim C5 at the input "constructor": the lookup \<open>SPORT_CONFIGS["constructor"]\<close> finds
  the property every object inherits, \<open>isValidSport\<close> accepts it, and the normalizer
  returns "constructor", which is no id of the sport config table.
\<close>

theorem normalizer_returns_unregistered_id:
  "normalizeSportFilter ''constructor'' = ''constructor'' \<and>
   ''constructor'' \<notin> set registered_ids"
  by code_simp

text \<open>
  That input is the only kind that escapes: the normalizer returns a registered id or
  the string "constructor", the one key of \<open>Object.prototype\<close> that lower-casing and
  hyphenating leave as it is.
\<close>

lemma normalized_chars:
  "c \<in> set (hyphenate (toLowerCase x)) \<Longrightarrow> c \<noteq> CHR ''_'' \<and> toLowerChar c = c"
  by (induction x)
     (auto simp: toLowerCase_def hyphenate_def toLowerChar_idem toLowerChar_hyphen split: if_splits)

lemma inherited_normalized:
  assumes "k \<in> set Object_prototype_keys"
    and "\<forall>c\<in>set k. c \<noteq> CHR ''_'' \<and> toLowerChar c = c"
  shows "k = ''constructor''"
proof -
  have "list_all
          (\<lambda>k. k = ''constructor'' \<or> \<not> list_all (\<lambda>c. c \<noteq> CHR ''_'' \<and> toLowerChar c = c) k)
          Object_prototype_keys"
    by code_simp
  then have "\<forall>k\<in>set Object_prototype_keys.
               k = ''constructor'' \<or> \<not> (\<forall>c\<in>set k. c \<noteq> CHR ''_'' \<and> toLowerChar c = c)"
    unfolding list_all_iff .
  with assms show ?thesis by blast
qed

lemma normalizeSportId_range:
  "normalizeSportId x \<in> set registered_ids \<or> normalizeSportId x = ''constructor''"
proof (cases "isValidSport (hyphenate (toLowerCase x))")
  case False
  then have "normalizeSportId x = ''all''"
    by (simp add: normalizeSportId_def UNIFIED_SPORTS_ALL_def Let_def)
  moreover have "''all'' \<in> set registered_ids"
    by (simp add: registered_ids_def SPORT_CONFIGS_def UNIFIED_SPORTS_defs)
  ultimately show ?thesis by simp
next
  case True
  let ?n = "hyphenate (toLowerCase x)"
  from True have r: "normalizeSportId x = ?n"
    by (simp add: normalizeSportId_def Let_def)
  from True have g: "get_property SPORT_CONFIGS ?n \<noteq> Missing"
    by (simp add: isValidSport_def getSportConfig_def toLowerCase_normalized)
  show ?thesis
  proof (cases "map_of SPORT_CONFIGS ?n")
    case (Some cfg)
    then have "(?n, cfg) \<in> set SPORT_CONFIGS" by (rule map_of_SomeD)
    then have "fst (?n, cfg) \<in> fst ` set SPORT_CONFIGS" by (rule imageI)
    then have "?n \<in> fst ` set SPORT_CONFIGS" by simp
    then show ?thesis unfolding r by (simp add: registered_ids_def)
  next
    case None
    with g have "?n \<in> set Object_prototype_keys"
      by (simp add: get_property_def split: if_splits)
    moreover have "\<forall>c\<in>set ?n. c \<noteq> CHR ''_'' \<and> toLowerChar c = c"
      using normalized_chars by blast
    ultimately have "?n = ''constructor''" by (rule inherited_normalized)
    then show ?thesis unfolding r by simp
  qed
qed

lemma normalizeSportFilter_range:
  "normalizeSportFilter x \<in> set registered_ids \<or> normalizeSportFilter x = ''constructor''"
proof (cases "x = [] \<or> x = ''all''")
  case True
  then have "normalizeSportFilter x = ''all''"
    by (auto simp: normalizeSportFilter_def UNIFIED_SPORTS_ALL_def)
  moreover have "''all'' \<in> set registered_ids"
    by (simp add: registered_ids_def SPORT_CONFIGS_def UNIFIED_SPORTS_defs)
  ultimately show ?thesis by simp
next
  case False
  then have "normalizeSportFilter x = normalizeSportId x"
    by (simp add: normalizeSportFilter_def)
  then show ?thesis using normalizeSportId_range[of x] by simp
qed

text \<open>
  Claim C8: for every collection and whatever options are given (the default ones
  among them), \<open>filterSportData\<close> returns the collection itself, unchanged, when the
  target sport is the wildcard "all", and likewise when it is the empty string.
\<close>

theorem wildcard_identity:
  "filterSportData C ''all'' options = Inr C \<and> filterSportData C [] options = Inr C"
  by (simp add: filterSportData_def filterBySport_def default_to_def UNIFIED_SPORTS_ALL_def)

lemma toLowerCase_nba: "toLowerCase ''nba'' = ''nba''"
  by code_simp

lemma sport_matches_nba_partial:
  "r \<in> set registered_ids \<Longrightarrow>
   sport_matches False True COMMON_SPORT_MAPPINGS ''nba'' r = Inr (r = ''nba'' \<or> r = ''wnba'')"
  apply (simp add: registered_ids_def SPORT_CONFIGS_def UNIFIED_SPORTS_defs)
  apply (elim disjE)
  apply simp_all
  apply code_simp+
  done

lemma sport_matches_nba_exact:
  "r \<in> set registered_ids \<Longrightarrow>
   sport_matches False False COMMON_SPORT_MAPPINGS ''nba'' r = Inr (r = ''nba'')"
  apply (simp add: registered_ids_def SPORT_CONFIGS_def UNIFIED_SPORTS_defs)
  apply (elim disjE)
  apply simp_all
  apply code_simp+
  done

lemma filter_throwing_total:
  "(\<And>x. x \<in> set xs \<Longrightarrow> p x = Inr (q x)) \<Longrightarrow> filter_throwing p xs = Inr (filter q xs)"
  by (induction xs) auto

text \<open>
  What the filter for "nba" returns on tags of the registry: with default options, in
  their order, the items tagged "nba" and also those tagged "wnba" (the partial match, on
  by default, accepts a tag that contains the target); with \<open>allowPartialMatch\<close> set to
  false, exactly the items tagged "nba", in their order.
\<close>

lemma filter_nba_on_registry_tags:
  assumes "sport ` set C \<subseteq> set registered_ids"
  shows "filterSportData C ''nba'' default_options =
           Inr (filter (\<lambda>i. sport i = ''nba'' \<or> sport i = ''wnba'') C) \<and>
         filterSportData C ''nba'' (default_options\<lparr>sd_allowPartialMatch := Some False\<rparr>) =
           Inr (filter (\<lambda>i. sport i = ''nba'') C)"
proof
  have "filter_throwing
          (\<lambda>item. sport_matches False True COMMON_SPORT_MAPPINGS ''nba'' (sport item)) C =
        Inr (filter (\<lambda>i. sport i = ''nba'' \<or> sport i = ''wnba'') C)"
    using assms by (intro filter_throwing_total sport_matches_nba_partial) blast
  then show "filterSportData C ''nba'' default_options =
               Inr (filter (\<lambda>i. sport i = ''nba'' \<or> sport i = ''wnba'') C)"
    by (simp add: filterSportData_def filterBySport_def default_options_def default_to_def
          UNIFIED_SPORTS_ALL_def toLowerCase_nba Let_def)
next
  have "filter_throwing
          (\<lambda>item. sport_matches False False COMMON_SPORT_MAPPINGS ''nba'' (sport item)) C =
        Inr (filter (\<lambda>i. sport i = ''nba'') C)"
    using assms by (intro filter_throwing_total sport_matches_nba_exact) blast
  then show "filterSportData C ''nba'' (default_options\<lparr>sd_allowPartialMatch := Some False\<rparr>) =
               Inr (filter (\<lambda>i. sport i = ''nba'') C)"
    by (simp add: filterSportData_def filterBySport_def default_options_def default_to_def
          UNIFIED_SPORTS_ALL_def toLowerCase_nba Let_def)
qed

lemma filter_nba_on_registry_tags_at_three_items:
  "sport ` set three_items \<subseteq> set registered_ids \<and>
   filterSportData three_items ''nba'' default_options =
     Inr [\<lparr>sport = ''nba''\<rparr>, \<lparr>sport = ''wnba''\<rparr>] \<and>
   filterSportData three_items ''nba'' (default_options\<lparr>sd_allowPartialMatch := Some False\<rparr>) =
     Inr [\<lparr>sport = ''nba''\<rparr>]"
proof -
  have h: "sport ` set three_items \<subseteq> set registered_ids"
    by (simp add: three_items_def registered_ids_def SPORT_CONFIGS_def UNIFIED_SPORTS_defs)
  from filter_nba_on_registry_tags[OF h] h show ?thesis
    by (simp add: three_items_def)
qed

text \<open>
  Claim C4 at a collection with one item, tagged with the registry id "wnba": the
  filter for "nba" with default options returns that item, while the subset with
  \<open>sport == "nba"\<close> is empty. (The tag contains the target, and the partial match accepts
  it.)
\<close>

theorem filter_nba_keeps_wnba:
  "sport ` set [\<lparr>sport = ''wnba''\<rparr>] \<subseteq> set registered_ids \<and>
   filterSportData [\<lparr>sport = ''wnba''\<rparr>] ''nba'' default_options = Inr [\<lparr>sport = ''wnba''\<rparr>] \<and>
   filter (\<lambda>i. sport i = ''nba'') [\<lparr>sport = ''wnba''\<rparr>] = [] \<and>
   filterSportData [\<lparr>sport = ''wnba''\<rparr>] ''nba'' default_options \<noteq>
     Inr (filter (\<lambda>i. sport i = ''nba'') [\<lparr>sport = ''wnba''\<rparr>])"
  by code_simp

lemma count_insert_sorted: "count_list (insert_sorted c x ys) a = count_list (x # ys) a"
  by (induction ys) auto

lemma count_array_sort: "count_list (array_sort c xs) a = count_list xs a"
  by (induction xs) (auto simp: array_sort_def count_insert_sorted)

lemma set_insert_sorted: "set (insert_sorted c x ys) = insert x (set ys)"
  by (induction ys) auto

lemma set_array_sort: "set (array_sort c xs) = set xs"
  by (induction xs) (simp_all add: array_sort_def set_insert_sorted)

lemma set_Set_add: "set (Set_add s x) = insert x (set s)"
  by (auto simp: Set_add_def)

lemma collect_mono:
  "set s \<subseteq> set (foldl (\<lambda>s item. if sport item \<noteq> [] then Set_add s (g item) else s) s items)"
proof (induction items arbitrary: s)
  case Nil
  show ?case by simp
next
  case (Cons a items)
  have "set s \<subseteq> set (if sport a \<noteq> [] then Set_add s (g a) else s)"
    by (auto simp: set_Set_add)
  also have "\<dots> \<subseteq> set (foldl (\<lambda>s item. if sport item \<noteq> [] then Set_add s (g item) else s)
                          (if sport a \<noteq> [] then Set_add s (g a) else s) items)"
    by (rule Cons.IH)
  finally show ?case by simp
qed

lemma collect_member:
  assumes "i \<in> set items" and "sport i \<noteq> []"
  shows "g i \<in> set (foldl (\<lambda>s item. if sport item \<noteq> [] then Set_add s (g item) else s) s items)"
  using assms(1)
proof (induction items arbitrary: s)
  case Nil
  then show ?case by simp
next
  case (Cons a items)
  show ?case
  proof (cases "i = a")
    case True
    have "g i \<in> set (Set_add s (g a))" using True by (simp add: set_Set_add)
    then show ?thesis
      using collect_mono[of "Set_add s (g a)" g items] True assms(2) by auto
  next
    case False
    with Cons.prems have "i \<in> set items" by simp
    then show ?thesis using Cons.IH by simp
  qed
qed

text \<open>
  Claim C10, as the code has it: with default options, for every input list in which
  some item has a nonempty sport tag that \<open>normalizeSportId\<close> sends to "all", the list
  \<open>extractUniqueSports\<close> returns contains "all" at least twice, once from the set of
  normalized tags and once from the wildcard put in front.
\<close>

theorem wildcard_not_deduplicated:
  assumes "\<exists>i\<in>set items. sport i \<noteq> [] \<and> normalizeSportId (sport i) = ''all''"
  shows "2 \<le> count_list (extractUniqueSports localeCompare items default_unique_options) ''all''"
proof -
  from assms obtain i where i: "i \<in> set items" "sport i \<noteq> []"
    and n: "normalizeSportId (sport i) = ''all''" by blast
  let ?set = "foldl (\<lambda>s item. if sport item \<noteq> []
                               then Set_add s (normalizeSportId (sport item)) else s) [] items"
  have "''all'' \<in> set ?set"
    using collect_member[OF i, of "\<lambda>item. normalizeSportId (sport item)" "[]"] n by simp
  then have "count_list ?set ''all'' \<noteq> 0"
    by (simp add: count_list_0_iff)
  then have "2 \<le> count_list (''all'' # ?set) ''all''" by simp
  then show ?thesis
    by (simp add: extractUniqueSports_def default_unique_options_def default_to_def
          count_array_sort UNIFIED_SPORTS_ALL_def Let_def cong del: if_weak_cong)
qed

theorem wildcard_not_deduplicated_witness:
  "(\<exists>i\<in>set [\<lparr>sport = ''cricket''\<rparr>, \<lparr>sport = ''nba''\<rparr>].
      sport i \<noteq> [] \<and> normalizeSportId (sport i) = ''all'') \<and>
   2 \<le> count_list
         (extractUniqueSports compare_code_units
            [\<lparr>sport = ''cricket''\<rparr>, \<lparr>sport = ''nba''\<rparr>] default_unique_options) ''all''"
proof -
  have n: "normalizeSportId ''cricket'' = ''all''" by code_simp
  then have h: "\<exists>i\<in>set [\<lparr>sport = ''cricket''\<rparr>, \<lparr>sport = ''nba''\<rparr>].
                  sport i \<noteq> [] \<and> normalizeSportId (sport i) = ''all''"
    by simp
  from wildcard_not_deduplicated[OF h] h show ?thesis by blast
qed

text \<open>
  Claim C10 as stated fails on a list whose only item has the empty tag: the empty
  string normalizes to "all", and yet the returned list holds "all" once.
\<close>

theorem empty_tag_not_duplicated:
  "normalizeSportId (sport \<lparr>sport = ''''\<rparr>) = ''all'' \<and>
   count_list
     (extractUniqueSports compare_code_units [\<lparr>sport = ''''\<rparr>] default_unique_options)
     ''all'' = 1"
  by code_simp

section \<open>Properties of the cache\<close>

text \<open>
  Claim C7: an entry written at time \<open>T\<close> with time-to-live \<open>ttl\<close> is a hit when read at
  any time strictly before \<open>T + ttl\<close> and a miss at any time at or after \<open>T + ttl\<close>; an
  entry found invalid at read time is deleted from the cache by that lookup.
\<close>

theorem cache_ttl_expiry:
  "(now < T + ttl \<longrightarrow>
      getFromCache now key (setCache T key d ttl c) = (Some d, setCache T key d ttl c)) \<and>
   (T + ttl \<le> now \<longrightarrow>
      getFromCache now key (setCache T key d ttl c) =
        (None, (setCache T key d ttl c)(key := None))) \<and>
   (c key = Some e \<and> \<not> isValidCacheEntry now e \<longrightarrow>
      getFromCache now key c = (None, c(key := None)))"
  by (auto simp: getFromCache_def setCache_def isValidCacheEntry_def)

theorem cache_ttl_expiry_witness:
  "getFromCache (1000 + CACHE_TTL - 1) ''k'' (setCache 1000 ''k'' ''v'' CACHE_TTL Map.empty) =
     (Some ''v'', setCache 1000 ''k'' ''v'' CACHE_TTL Map.empty) \<and>
   getFromCache (1000 + CACHE_TTL) ''k'' (setCache 1000 ''k'' ''v'' CACHE_TTL Map.empty) =
     (None, (setCache 1000 ''k'' ''v'' CACHE_TTL Map.empty)(''k'' := None)) \<and>
   getFromCache (1000 + CACHE_TTL + 1) ''k'' (setCache 1000 ''k'' ''v'' CACHE_TTL Map.empty) =
     (None, (setCache 1000 ''k'' ''v'' CACHE_TTL Map.empty)(''k'' := None)) \<and>
   [''k'' \<mapsto> \<lparr>entry_data = ''v'', entry_timestamp = 0, entry_ttl = 5\<rparr>] ''k'' =
     Some \<lparr>entry_data = ''v'', entry_timestamp = 0, entry_ttl = 5\<rparr> \<and>
   \<not> isValidCacheEntry 5 \<lparr>entry_data = ''v'', entry_timestamp = 0, entry_ttl = 5\<rparr> \<and>
   getFromCache 5 ''k'' [''k'' \<mapsto> \<lparr>entry_data = ''v'', entry_timestamp = 0, entry_ttl = 5\<rparr>] =
     (None, [''k'' \<mapsto> \<lparr>entry_data = ''v'', entry_timestamp = 0, entry_ttl = 5\<rparr>](''k'' := None))"
  using cache_ttl_expiry[of "1000 + CACHE_TTL - 1" 1000 CACHE_TTL "''k''" "''v''" Map.empty]
        cache_ttl_expiry[of "1000 + CACHE_TTL" 1000 CACHE_TTL "''k''" "''v''" Map.empty]
        cache_ttl_expiry[of "1000 + CACHE_TTL + 1" 1000 CACHE_TTL "''k''" "''v''" Map.empty]
        cache_ttl_expiry[where now = 5 and key = "''k''"
          and c = "[''k'' \<mapsto> \<lparr>entry_data = ''v'', entry_timestamp = 0, entry_ttl = 5\<rparr>]"
          and e = "\<lparr>entry_data = ''v'', entry_timestamp = 0, entry_ttl = 5\<rparr>"]
  by (simp add: CACHE_TTL_def isValidCacheEntry_def)

section \<open>Properties of the facade\<close>

subsection \<open>The steps after the transform only select and reorder\<close>

lemma set_filter_throwing: "filter_throwing p xs = Inr ys \<Longrightarrow> set ys \<subseteq> set xs"
proof (induction xs arbitrary: ys)
  case Nil
  then show ?case by simp
next
  case (Cons x xs)
  then show ?case
    by (auto split: sum.splits if_splits)
qed

lemma set_slice_to: "set (slice_to n xs) \<subseteq> set xs"
  by (simp add: slice_to_def set_take_subset)

lemma set_filterSportData: "filterSportData items s opts = Inr ys \<Longrightarrow> set ys \<subseteq> set items"
  by (auto simp: filterSportData_def filterBySport_def Let_def dest: set_filter_throwing split: if_splits)

lemma set_applySportFilter:
  assumes "applySportFilter fs items = Inr ys"
  shows "set ys \<subseteq> set items"
proof (cases "f_sport fs")
  case None
  with assms show ?thesis by (simp add: applySportFilter_def)
next
  case (Some s)
  show ?thesis
  proof (cases "s \<noteq> [] \<and> s \<noteq> UNIFIED_SPORTS_ALL")
    case True
    with Some assms have "filterSportData items s
                 \<lparr>useCommonMappings = Some True, sd_allowPartialMatch = Some True,
                  sd_caseSensitive = Some False\<rparr> = Inr ys"
      by (simp add: applySportFilter_def)
    then show ?thesis by (rule set_filterSportData)
  next
    case False
    with Some assms have "ys = items" by (auto simp add: applySportFilter_def)
    then show ?thesis by simp
  qed
qed

lemma set_applyConfidenceFilter: "set (applyConfidenceFilter conf fs zs) \<subseteq> set zs"
  by (cases "f_minConfidence fs") (simp_all add: applyConfidenceFilter_def)

lemma set_applySorting: "set (applySorting pf read fs zs) = set zs"
  by (cases "f_sortBy fs") (simp_all add: applySorting_def set_array_sort)

lemma set_applyResultLimit: "set (applyResultLimit fs zs) \<subseteq> set zs"
  by (cases "f_maxResults fs") (simp_all add: applyResultLimit_def set_slice_to)

lemma set_refine:
  assumes "refine pf read conf fs items = Inr ys"
  shows "set ys \<subseteq> set items"
proof -
  from assms obtain by_sport where a: "applySportFilter fs items = Inr by_sport"
    and r: "ys = applyResultLimit fs (applySorting pf read fs (applyConfidenceFilter conf fs by_sport))"
    by (cases "applySportFilter fs items") (simp_all add: refine_def)
  have "set ys \<subseteq> set (applySorting pf read fs (applyConfidenceFilter conf fs by_sport))"
    unfolding r by (rule set_applyResultLimit)
  also have "\<dots> = set (applyConfidenceFilter conf fs by_sport)"
    by (rule set_applySorting)
  also have "\<dots> \<subseteq> set by_sport"
    by (rule set_applyConfidenceFilter)
  also have "\<dots> \<subseteq> set items"
    using a by (rule set_applySportFilter)
  finally show ?thesis .
qed

text \<open>
  What the transform of \<open>getPlayerProps\<close> does with the confidence: on a fresh fetch (a
  cache miss, an upstream response with data), every record of the result has the
  confidence of a prop the provider returned, unchanged when that is present and not zero,
  and 75 otherwise.
\<close>

lemma transformProp_confidence:
  "prop_confidence (transformProp pf now ip) = or_num (rp_confidence (snd ip)) 75"
  by (simp add: transformProp_def Let_def)

lemma catch_block_data:
  "catch_block e now = Resolves r \<Longrightarrow> data r = Some [] \<and> success r = False"
  by (cases e) (auto simp: catch_block_def failure_response_def)

lemma player_props_confidence_from_provider:
  assumes miss: "fst (getFromCache t0 (getCacheKey pf ''player-props'' fs) (cache svc)) = None"
    and up: "api_getPrizePicksProps api (props_request fs) = Resolves response"
    and raw: "res_data response = Some raws"
    and got: "fst (getPlayerProps pf api t0 t1 fs svc) = Resolves result"
    and dat: "data result = Some props"
  shows "\<forall>p\<in>set props. \<exists>r\<in>set raws.
           prop_confidence p =
             (case rp_confidence r of None \<Rightarrow> 75 | Some c \<Rightarrow> if c \<noteq> 0 then c else 75)"
proof (cases "fetchPlayerProps pf api t1 fs")
  case (Inl e)
  with miss got have "catch_block e t1 = Resolves result"
    by (simp add: getPlayerProps_def Let_def)
  with dat have "props = []"
    by (auto dest: catch_block_data)
  then show ?thesis by simp
next
  case (Inr ys)
  with miss got dat have p: "props = ys"
    by (auto simp add: getPlayerProps_def Let_def success_response_def)
  from Inr up raw have "refine pf prop_property prop_confidence fs (map (transformProp pf t1) (indexed raws)) = Inr ys"
    by (simp add: fetchPlayerProps_def checked_data_def split: if_splits)
  then have sub: "set ys \<subseteq> transformProp pf t1 ` set (indexed raws)"
    using set_refine by fastforce
  show ?thesis
  proof
    fix q assume "q \<in> set props"
    with p sub obtain ip where ip: "ip \<in> set (indexed raws)" and q: "q = transformProp pf t1 ip"
      by blast
    obtain i r where ir: "ip = (i, r)" by (cases ip)
    with ip have "(i, r) \<in> set (zip [0..<length raws] raws)"
      by (simp add: indexed_def)
    then have "r \<in> set raws" by (rule set_zip_rightD)
    with ir have "snd ip \<in> set raws" by simp
    then show "\<exists>r\<in>set raws. prop_confidence q =
             (case rp_confidence r of None \<Rightarrow> 75 | Some c \<Rightarrow> if c \<noteq> 0 then c else 75)"
      unfolding q transformProp_confidence or_num_def by blast
  qed
qed

text \<open>
  Claim C2 at a provider response with two props, of confidence 99 and 10: the fresh
  fetch succeeds and returns them with these confidences, which lie outside [50, 95]. The
  transform copies \<open>prop.confidence || 75\<close> and does not clamp.
\<close>

theorem player_props_confidence_unclamped:
  "fst (getPlayerProps sample_platform api_two_props 0 1 no_filters new_service) =
     Resolves (success_response two_unified_props no_filters 1) \<and>
   map prop_confidence two_unified_props = [99, 10] \<and>
   \<not> list_all (\<lambda>p. 50 \<le> prop_confidence p \<and> prop_confidence p \<le> 95) two_unified_props"
  by code_simp

subsection \<open>The error branch\<close>

lemma getFromCache_miss:
  "fst (getFromCache t k c) = None \<Longrightarrow> snd (getFromCache t k c) = c(k := None)"
  by (cases "c k") (auto simp: getFromCache_def split: if_splits)

lemma opps_error_branch:
  assumes "fst (getFromCache t0 (getCacheKey pf ''betting-opportunities'' fs) (cache svc)) = None"
    and "fetchBettingOpportunities pf api t1 fs = Inl e"
  shows "getBettingOpportunities pf api t0 t1 fs svc =
           (catch_block e t1,
            svc\<lparr>cache := (cache svc)(getCacheKey pf ''betting-opportunities'' fs := None),
                upstream_calls := upstream_calls svc @
                   [CallBettingOpportunities (opportunities_request fs)]\<rparr>)"
  using assms by (simp add: getBettingOpportunities_def getFromCache_miss Let_def)

lemma props_error_branch:
  assumes "fst (getFromCache t0 (getCacheKey pf ''player-props'' fs) (cache svc)) = None"
    and "fetchPlayerProps pf api t1 fs = Inl e"
  shows "getPlayerProps pf api t0 t1 fs svc =
           (catch_block e t1,
            svc\<lparr>cache := (cache svc)(getCacheKey pf ''player-props'' fs := None),
                upstream_calls := upstream_calls svc @
                   [CallPrizePicksProps (props_request fs)]\<rparr>)"
  using assms by (simp add: getPlayerProps_def getFromCache_miss Let_def)

lemma opps_calls_on_miss:
  assumes "cache svc (getCacheKey pf ''betting-opportunities'' fs) = None"
  shows "upstream_calls (snd (getBettingOpportunities pf api t0 t1 fs svc)) =
           upstream_calls svc @ [CallBettingOpportunities (opportunities_request fs)]"
  using assms
  by (cases "fetchBettingOpportunities pf api t1 fs")
     (simp_all add: getBettingOpportunities_def getFromCache_def Let_def)

lemma props_calls_on_miss:
  assumes "cache svc (getCacheKey pf ''player-props'' fs) = None"
  shows "upstream_calls (snd (getPlayerProps pf api t0 t1 fs svc)) =
           upstream_calls svc @ [CallPrizePicksProps (props_request fs)]"
  using assms
  by (cases "fetchPlayerProps pf api t1 fs")
     (simp_all add: getPlayerProps_def getFromCache_def Let_def)

text \<open>
  Claim C9, as the code has it: a call of \<open>getBettingOpportunities\<close> or \<open>getPlayerProps\<close>
  that takes the error branch (the lookup misses and the \<open>try\<close> block throws) stores
  nothing. It settles as the \<open>catch\<close> block does, and the cache map it leaves is the map
  before the call without the call's own key: an expired entry under that key is deleted
  by the lookup, and nothing else changes. A subsequent call with the same cache key, at
  any time and whatever the upstream does then, sends a fresh request upstream.
\<close>

theorem failed_results_not_cached:
  "(fst (getFromCache t0 (getCacheKey pf ''betting-opportunities'' fs) (cache svc)) = None \<and>
    fetchBettingOpportunities pf api t1 fs = Inl e \<longrightarrow>
      fst (getBettingOpportunities pf api t0 t1 fs svc) = catch_block e t1 \<and>
      cache (snd (getBettingOpportunities pf api t0 t1 fs svc)) =
        (cache svc)(getCacheKey pf ''betting-opportunities'' fs := None) \<and>
      upstream_calls
        (snd (getBettingOpportunities pf api' t0' t1' fs
                (snd (getBettingOpportunities pf api t0 t1 fs svc)))) =
        upstream_calls (snd (getBettingOpportunities pf api t0 t1 fs svc)) @
          [CallBettingOpportunities (opportunities_request fs)]) \<and>
   (fst (getFromCache t0 (getCacheKey pf ''player-props'' fs) (cache svc)) = None \<and>
    fetchPlayerProps pf api t1 fs = Inl e \<longrightarrow>
      fst (getPlayerProps pf api t0 t1 fs svc) = catch_block e t1 \<and>
      cache (snd (getPlayerProps pf api t0 t1 fs svc)) =
        (cache svc)(getCacheKey pf ''player-props'' fs := None) \<and>
      upstream_calls
        (snd (getPlayerProps pf api' t0' t1' fs
                (snd (getPlayerProps pf api t0 t1 fs svc)))) =
        upstream_calls (snd (getPlayerProps pf api t0 t1 fs svc)) @
          [CallPrizePicksProps (props_request fs)])"
proof (intro conjI impI)
  assume a: "fst (getFromCache t0 (getCacheKey pf ''betting-opportunities'' fs) (cache svc)) = None \<and>
    fetchBettingOpportunities pf api t1 fs = Inl e"
  note eq = opps_error_branch[OF conjunct1[OF a] conjunct2[OF a]]
  show "fst (getBettingOpportunities pf api t0 t1 fs svc) = catch_block e t1"
    by (simp add: eq)
  show "cache (snd (getBettingOpportunities pf api t0 t1 fs svc)) =
        (cache svc)(getCacheKey pf ''betting-opportunities'' fs := None)"
    by (simp add: eq)
  have "cache (snd (getBettingOpportunities pf api t0 t1 fs svc))
          (getCacheKey pf ''betting-opportunities'' fs) = None"
    by (simp add: eq)
  then show "upstream_calls
        (snd (getBettingOpportunities pf api' t0' t1' fs
                (snd (getBettingOpportunities pf api t0 t1 fs svc)))) =
        upstream_calls (snd (getBettingOpportunities pf api t0 t1 fs svc)) @
          [CallBettingOpportunities (opportunities_request fs)]"
    by (rule opps_calls_on_miss)
next
  assume a: "fst (getFromCache t0 (getCacheKey pf ''player-props'' fs) (cache svc)) = None \<and>
    fetchPlayerProps pf api t1 fs = Inl e"
  note eq = props_error_branch[OF conjunct1[OF a] conjunct2[OF a]]
  show "fst (getPlayerProps pf api t0 t1 fs svc) = catch_block e t1"
    by (simp add: eq)
  show "cache (snd (getPlayerProps pf api t0 t1 fs svc)) =
        (cache svc)(getCacheKey pf ''player-props'' fs := None)"
    by (simp add: eq)
  have "cache (snd (getPlayerProps pf api t0 t1 fs svc))
          (getCacheKey pf ''player-props'' fs) = None"
    by (simp add: eq)
  then show "upstream_calls
        (snd (getPlayerProps pf api' t0' t1' fs
                (snd (getPlayerProps pf api t0 t1 fs svc)))) =
        upstream_calls (snd (getPlayerProps pf api t0 t1 fs svc)) @
          [CallPrizePicksProps (props_request fs)]"
    by (rule props_calls_on_miss)
qed

theorem failed_results_not_cached_witness:
  "fst (getFromCache 400000 (getCacheKey sample_platform ''betting-opportunities'' no_filters)
          (cache stale_service)) = None \<and>
   fetchBettingOpportunities sample_platform api_down 400001 no_filters =
     Inl (ErrorObject (Error ''Network Error'')) \<and>
   fst (getBettingOpportunities sample_platform api_down 400000 400001 no_filters stale_service) =
     catch_block (ErrorObject (Error ''Network Error'')) 400001 \<and>
   cache (snd (getBettingOpportunities sample_platform api_down 400000 400001 no_filters
                 stale_service)) =
     (cache stale_service)
       (getCacheKey sample_platform ''betting-opportunities'' no_filters := None) \<and>
   upstream_calls
     (snd (getBettingOpportunities sample_platform api_two_props 400002 400003 no_filters
             (snd (getBettingOpportunities sample_platform api_down 400000 400001 no_filters
                     stale_service)))) =
     upstream_calls
       (snd (getBettingOpportunities sample_platform api_down 400000 400001 no_filters
               stale_service)) @
     [CallBettingOpportunities (opportunities_request no_filters)] \<and>
   fst (getFromCache 400000 (getCacheKey sample_platform ''player-props'' no_filters)
          (cache stale_service)) = None \<and>
   fetchPlayerProps sample_platform api_down 400001 no_filters =
     Inl (ErrorObject (Error ''Network Error'')) \<and>
   fst (getPlayerProps sample_platform api_down 400000 400001 no_filters stale_service) =
     catch_block (ErrorObject (Error ''Network Error'')) 400001 \<and>
   cache (snd (getPlayerProps sample_platform api_down 400000 400001 no_filters stale_service)) =
     (cache stale_service)(getCacheKey sample_platform ''player-props'' no_filters := None) \<and>
   upstream_calls
     (snd (getPlayerProps sample_platform api_two_props 400002 400003 no_filters
             (snd (getPlayerProps sample_platform api_down 400000 400001 no_filters
                     stale_service)))) =
     upstream_calls
       (snd (getPlayerProps sample_platform api_down 400000 400001 no_filters stale_service)) @
     [CallPrizePicksProps (props_request no_filters)]"
proof -
  have h1: "fst (getFromCache 400000
                   (getCacheKey sample_platform ''betting-opportunities'' no_filters)
                   (cache stale_service)) = None"
    by code_simp
  have h2: "fetchBettingOpportunities sample_platform api_down 400001 no_filters =
              Inl (ErrorObject (Error ''Network Error''))"
    by code_simp
  have h3: "fst (getFromCache 400000 (getCacheKey sample_platform ''player-props'' no_filters)
                   (cache stale_service)) = None"
    by code_simp
  have h4: "fetchPlayerProps sample_platform api_down 400001 no_filters =
              Inl (ErrorObject (Error ''Network Error''))"
    by code_simp
  from failed_results_not_cached[of 400000 sample_platform no_filters stale_service api_down
         400001 "ErrorObject (Error ''Network Error'')" api_two_props 400002 400003]
       h1 h2 h3 h4
  show ?thesis by blast
qed

text \<open>
  Claim C9 as stated fails: a call that takes the error branch can change the cache
  map. The service holds an entry written at time 0; at time 400000 the entry has
  expired, the upstream is down, the call returns the failure and the map has lost the
  entry.
\<close>

theorem error_branch_deletes_expired_entry:
  "fst (getBettingOpportunities sample_platform api_down 400000 400001 no_filters
          stale_service) =
     Resolves (failure_response (Some ''Network Error'') 400001) \<and>
   cache (snd (getBettingOpportunities sample_platform api_down 400000 400001 no_filters
                 stale_service)) \<noteq>
   cache stale_service"
proof
  show "fst (getBettingOpportunities sample_platform api_down 400000 400001 no_filters
               stale_service) =
          Resolves (failure_response (Some ''Network Error'') 400001)"
    by code_simp
  have a: "cache (snd (getBettingOpportunities sample_platform api_down 400000 400001 no_filters
                         stale_service)) ''betting-opportunities:{}'' = None"
    by code_simp
  have b: "cache stale_service ''betting-opportunities:{}'' \<noteq> None"
    by code_simp
  from a b show "cache (snd (getBettingOpportunities sample_platform api_down 400000 400001
                               no_filters stale_service)) \<noteq> cache stale_service"
    by metis
qed

subsection \<open>A failing upstream\<close>

lemma key_opps_not_sports: "getCacheKey pf ''betting-opportunities'' fs \<noteq> ''available-sports''"
  by (simp add: getCacheKey_def)

lemma key_props_not_sports: "getCacheKey pf ''player-props'' fs \<noteq> ''available-sports''"
  by (simp add: getCacheKey_def)

lemma checked_data_failed:
  "failed outcome \<Longrightarrow> checked_data fb outcome = Inl (thrown_by fb outcome)"
  by (auto simp: failed_def checked_data_def thrown_by_def
           split: settled.splits option.splits if_splits)

lemma fetch_opps_failed:
  "always_fails api \<Longrightarrow>
   fetchBettingOpportunities pf api t fs =
     Inl (thrown_by ''Failed to fetch betting opportunities''
            (api_getBettingOpportunities api (opportunities_request fs)))"
  by (simp add: always_fails_def fetchBettingOpportunities_def checked_data_failed)

lemma fetch_props_failed:
  "always_fails api \<Longrightarrow>
   fetchPlayerProps pf api t fs =
     Inl (thrown_by ''Failed to fetch player props''
            (api_getPrizePicksProps api (props_request fs)))"
  by (simp add: always_fails_def fetchPlayerProps_def checked_data_failed)

lemma catch_block_value:
  "outcome \<noteq> Rejects NullOrUndefined \<Longrightarrow>
   catch_block (thrown_by fb outcome) now =
     Resolves (failure_response (failure_message fb outcome) now)"
proof (cases outcome)
  case (Rejects e)
  assume "outcome \<noteq> Rejects NullOrUndefined"
  with Rejects show ?thesis
    by (cases e) (simp_all add: catch_block_def thrown_by_def failure_message_def)
next
  case (Resolves r)
  then show ?thesis
    by (simp add: catch_block_def thrown_by_def failure_message_def)
qed

lemma catch_block_resolves_empty:
  "catch_block e now = Resolves r \<Longrightarrow> data r = Some []"
  by (cases e) (auto simp: catch_block_def failure_response_def)

lemma only_wildcardD:
  "only_wildcard c \<Longrightarrow> c k = Some e \<Longrightarrow>
   k = ''available-sports'' \<and> entry_data e = SportsPayload [''all'']"
  unfolding only_wildcard_def by blast

lemma only_wildcardI:
  "(\<And>k e. c k = Some e \<Longrightarrow> k = ''available-sports'' \<and> entry_data e = SportsPayload [''all''])
   \<Longrightarrow> only_wildcard c"
  unfolding only_wildcard_def by blast

lemma only_wildcard_opps_key:
  "only_wildcard c \<Longrightarrow> c (getCacheKey pf ''betting-opportunities'' fs) = None"
  using key_opps_not_sports[of pf fs]
  by (cases "c (getCacheKey pf ''betting-opportunities'' fs)") (auto dest: only_wildcardD)

lemma only_wildcard_props_key:
  "only_wildcard c \<Longrightarrow> c (getCacheKey pf ''player-props'' fs) = None"
  using key_props_not_sports[of pf fs]
  by (cases "c (getCacheKey pf ''player-props'' fs)") (auto dest: only_wildcardD)

lemma getFromCache_absent: "c k = None \<Longrightarrow> getFromCache t k c = (None, c)"
  by (simp add: getFromCache_def)

lemma opps_down:
  assumes "only_wildcard (cache svc)" "always_fails api"
  shows "getBettingOpportunities pf api t0 t1 fs svc =
           (catch_block
              (thrown_by ''Failed to fetch betting opportunities''
                 (api_getBettingOpportunities api (opportunities_request fs))) t1,
            svc\<lparr>upstream_calls := upstream_calls svc @
                   [CallBettingOpportunities (opportunities_request fs)]\<rparr>)"
  using only_wildcard_opps_key[OF assms(1), of pf fs] fetch_opps_failed[OF assms(2), of pf t1 fs]
  by (simp add: getBettingOpportunities_def getFromCache_absent Let_def)

lemma props_down:
  assumes "only_wildcard (cache svc)" "always_fails api"
  shows "getPlayerProps pf api t0 t1 fs svc =
           (catch_block
              (thrown_by ''Failed to fetch player props''
                 (api_getPrizePicksProps api (props_request fs))) t1,
            svc\<lparr>upstream_calls := upstream_calls svc @
                   [CallPrizePicksProps (props_request fs)]\<rparr>)"
  using only_wildcard_props_key[OF assms(1), of pf fs] fetch_props_failed[OF assms(2), of pf t1 fs]
  by (simp add: getPlayerProps_def getFromCache_absent Let_def)

lemma only_wildcard_delete: "only_wildcard c \<Longrightarrow> only_wildcard (c(k := None))"
proof (rule only_wildcardI)
  fix k' e assume w: "only_wildcard c" and h: "(c(k := None)) k' = Some e"
  then have "c k' = Some e" by (cases "k' = k") simp_all
  with w show "k' = ''available-sports'' \<and> entry_data e = SportsPayload [''all'']"
    by (rule only_wildcardD)
qed

lemma only_wildcard_lookup:
  "only_wildcard c \<Longrightarrow> only_wildcard (snd (getFromCache t k c))"
  by (simp add: getFromCache_def only_wildcard_delete split: option.splits)

lemma only_wildcard_hit:
  assumes "only_wildcard c" and "fst (getFromCache t k c) = Some p"
  shows "p = SportsPayload [''all'']"
proof -
  from assms(2) obtain e where "c k = Some e" and "p = entry_data e"
    by (cases "c k") (simp_all add: getFromCache_def split: if_splits)
  with only_wildcardD[OF assms(1)] show ?thesis by blast
qed

lemma only_wildcard_store:
  assumes "only_wildcard c"
  shows "only_wildcard (setCache t ''available-sports'' (SportsPayload [''all'']) ttl c)"
proof (rule only_wildcardI)
  fix k e
  assume h: "setCache t ''available-sports'' (SportsPayload [''all'']) ttl c k = Some e"
  show "k = ''available-sports'' \<and> entry_data e = SportsPayload [''all'']"
  proof (cases "k = ''available-sports''")
    case True
    with h show ?thesis by (auto simp: setCache_def)
  next
    case False
    with h have "c k = Some e" by (simp add: setCache_def)
    with assms show ?thesis by (rule only_wildcardD)
  qed
qed

text \<open>
  What \<open>getAvailableSports\<close> does on a miss while the upstream fails: the list is the
  fallback when an inner call rejected and the wildcard alone otherwise, and only the
  latter is stored.
\<close>

lemma sports_down_miss:
  assumes w: "only_wildcard (cache svc)" and f: "always_fails api"
    and miss: "fst (getFromCache t0 ''available-sports'' (cache svc)) = None"
  shows "only_wildcard (cache (snd (getAvailableSports pf api t0 tb tp t3 svc))) \<and>
         (rejects_with_values api \<longrightarrow>
            fst (getAvailableSports pf api t0 tb tp t3 svc) = [''all''])"
proof -
  let ?fs = "no_filters\<lparr>f_maxResults := Some 100\<rparr>"
  let ?svc0 = "svc\<lparr>cache := snd (getFromCache t0 ''available-sports'' (cache svc))\<rparr>"
  let ?svc1 = "?svc0\<lparr>upstream_calls := upstream_calls svc @
                   [CallBettingOpportunities (opportunities_request ?fs)]\<rparr>"
  let ?svc2 = "?svc1\<lparr>upstream_calls := upstream_calls svc @
                   [CallBettingOpportunities (opportunities_request ?fs)] @
                   [CallPrizePicksProps (props_request ?fs)]\<rparr>"
  let ?eb = "thrown_by ''Failed to fetch betting opportunities''
               (api_getBettingOpportunities api (opportunities_request ?fs))"
  let ?ep = "thrown_by ''Failed to fetch player props''
               (api_getPrizePicksProps api (props_request ?fs))"
  let ?cb = "catch_block ?eb tb :: UnifiedBettingOpportunity UnifiedApiResponse settled"
  let ?cp = "catch_block ?ep tp :: UnifiedPlayerProp UnifiedApiResponse settled"
  have w0: "only_wildcard (cache ?svc0)"
    using w by (simp add: only_wildcard_lookup)
  have b: "getBettingOpportunities pf api t0 tb ?fs ?svc0 = (?cb, ?svc1)"
    using opps_down[OF w0 f, of pf t0 tb ?fs] by simp
  have w1: "only_wildcard (cache ?svc1)" using w0 by simp
  have p: "getPlayerProps pf api t0 tp ?fs ?svc1 = (?cp, ?svc2)"
    using props_down[OF w1 f, of pf t0 tp ?fs] by simp
  have w2: "only_wildcard (cache ?svc2)" using w0 by simp
  have store: "only_wildcard (setCache t3 ''available-sports'' (SportsPayload [''all''])
                 (2 * 60 * 1000) (cache ?svc2))"
    using w2 by (rule only_wildcard_store)
  have both: "getAvailableSports pf api t0 tb tp t3 svc =
                ([''all''],
                 ?svc2\<lparr>cache := setCache t3 ''available-sports'' (SportsPayload [''all''])
                                  (2 * 60 * 1000) (cache ?svc2)\<rparr>)"
    if rb: "?cb = Resolves br" and rp: "?cp = Resolves pr"
    for br pr
  proof -
    from rb have db: "data br = Some []" by (rule catch_block_resolves_empty)
    from rp have dp: "data pr = Some []" by (rule catch_block_resolves_empty)
    show ?thesis
      using miss
      by (simp add: getAvailableSports_def Let_def b p rb rp db dp add_sports_def
            UNIFIED_SPORTS_ALL_def)
  qed
  have inv: "only_wildcard (cache (snd (getAvailableSports pf api t0 tb tp t3 svc)))"
  proof (cases ?cb)
    case (Rejects e)
    have "getAvailableSports pf api t0 tb tp t3 svc = (fallback_sports, ?svc2)"
      using miss by (simp add: getAvailableSports_def Let_def b p Rejects)
    with w2 show ?thesis by simp
  next
    case rb: (Resolves br)
    show ?thesis
    proof (cases ?cp)
      case (Rejects e)
      have "getAvailableSports pf api t0 tb tp t3 svc = (fallback_sports, ?svc2)"
        using miss by (simp add: getAvailableSports_def Let_def b p rb Rejects)
      with w2 show ?thesis by simp
    next
      case rp: (Resolves pr)
      from both[OF rb rp] store show ?thesis by simp
    qed
  qed
  have val: "fst (getAvailableSports pf api t0 tb tp t3 svc) = [''all'']"
    if r: "rejects_with_values api"
  proof -
    from r have "api_getBettingOpportunities api (opportunities_request ?fs) \<noteq> Rejects NullOrUndefined"
      by (simp add: rejects_with_values_def)
    then have cb: "?cb =
        Resolves (failure_response (failure_message ''Failed to fetch betting opportunities''
                    (api_getBettingOpportunities api (opportunities_request ?fs))) tb)"
      by (rule catch_block_value)
    from r have "api_getPrizePicksProps api (props_request ?fs) \<noteq> Rejects NullOrUndefined"
      by (simp add: rejects_with_values_def)
    then have cp: "?cp =
        Resolves (failure_response (failure_message ''Failed to fetch player props''
                    (api_getPrizePicksProps api (props_request ?fs))) tp)"
      by (rule catch_block_value)
    from both[OF cb cp] show ?thesis by simp
  qed
  from inv val show ?thesis by blast
qed

lemma sports_down:
  assumes w: "only_wildcard (cache svc)" and f: "always_fails api"
  shows "only_wildcard (cache (snd (getAvailableSports pf api t0 tb tp t3 svc))) \<and>
         (rejects_with_values api \<longrightarrow>
            fst (getAvailableSports pf api t0 tb tp t3 svc) = [''all''])"
proof (cases "fst (getFromCache t0 ''available-sports'' (cache svc))")
  case None
  with w f show ?thesis by (rule sports_down_miss)
next
  case (Some p)
  then have "p = SportsPayload [''all'']"
    using w only_wildcard_hit by blast
  with Some show ?thesis
    using w by (simp add: getAvailableSports_def Let_def)
qed

lemma reachable_only_wildcard:
  "reachable_failing pf svc \<Longrightarrow> only_wildcard (cache svc)"
proof (induction rule: reachable_failing.induct)
  case constructed
  show ?case by (rule only_wildcardI) (simp add: new_service_def)
next
  case (after_opportunities svc api t0 t1 fs)
  then show ?case by (simp add: opps_down)
next
  case (after_props svc api t0 t1 fs)
  then show ?case by (simp add: props_down)
next
  case (after_sports svc api t0 tb tp t3)
  then show ?case by (simp add: sports_down)
next
  case (after_clear svc)
  show ?case by (rule only_wildcardI) (simp add: clearCache_def)
qed

text \<open>
  Claim C6 at a client whose calls reject with \<open>undefined\<close>: the \<open>catch\<close> block of
  \<open>getBettingOpportunities\<close> reads \<open>(error as Error).message\<close>, that read throws, and
  the promise the facade returned for \<open>getBettingOpportunities({})\<close> rejects with the
  \<open>TypeError\<close>.
\<close>

theorem facade_rejects_when_upstream_rejects_with_undefined:
  "fst (getBettingOpportunities sample_platform api_rejecting_undefined 0 1 no_filters
          new_service) =
   Rejects (ErrorObject (TypeError ''Cannot read properties of undefined (reading 'message')''))"
  by code_simp

text \<open>
  For every other failing client the facade does what the claim says: whatever sequence
  of calls the service has served while its upstream failed on every call, and for every
  client that fails without rejecting with \<open>null\<close> or \<open>undefined\<close>,
  \<open>getBettingOpportunities({})\<close> resolves to the failure response, with the message of
  the error object thrown, or the response's error text, or the default text when the
  response has none (and no \<open>error\<close> field when the value thrown has no message).
\<close>

lemma facade_resolves_with_failure:
  assumes "reachable_failing pf svc" and "always_fails api" and "rejects_with_values api"
  shows "fst (getBettingOpportunities pf api t0 t1 no_filters svc) =
           Resolves
             \<lparr>success = False, data = Some [], count = Some 0, filters = None,
              error = failure_message ''Failed to fetch betting opportunities''
                        (api_getBettingOpportunities api (opportunities_request no_filters)),
              timestamp = t1, cached = None\<rparr>"
proof -
  from assms(3)
  have "api_getBettingOpportunities api (opportunities_request no_filters) \<noteq>
          Rejects NullOrUndefined"
    by (simp add: rejects_with_values_def)
  then have "catch_block
               (thrown_by ''Failed to fetch betting opportunities''
                  (api_getBettingOpportunities api (opportunities_request no_filters))) t1 =
             (Resolves
                (failure_response
                   (failure_message ''Failed to fetch betting opportunities''
                      (api_getBettingOpportunities api (opportunities_request no_filters))) t1)
              :: UnifiedBettingOpportunity UnifiedApiResponse settled)"
    by (rule catch_block_value)
  with opps_down[OF reachable_only_wildcard[OF assms(1)] assms(2), of pf t0 t1 no_filters]
  show ?thesis by (simp add: failure_response_def)
qed

text \<open>
  Claim C1, on the code: whatever sequence of calls a service has served while its
  upstream client failed on every call, and for every client that fails without rejecting
  with \<open>null\<close> or \<open>undefined\<close> (one that throws errors, or returns failed responses),
  \<open>getAvailableSports()\<close> returns the list that holds the wildcard alone, which is not
  the hardcoded list of major sports. The two inner methods resolve to failure responses
  with empty data, so the \<open>catch\<close> block that returns the hardcoded list is not entered.
\<close>

theorem available_sports_when_upstream_fails:
  assumes "reachable_failing pf svc" and "always_fails api" and "rejects_with_values api"
  shows "fst (getAvailableSports pf api t0 tb tp t3 svc) = [''all''] \<and>
         fst (getAvailableSports pf api t0 tb tp t3 svc) \<noteq> fallback_sports"
  using sports_down[OF reachable_only_wildcard[OF assms(1)] assms(2), of pf t0 tb tp t3] assms(3)
  by (simp add: fallback_sports_def)

theorem available_sports_when_upstream_fails_witness:
  "reachable_failing sample_platform new_service \<and>
   always_fails api_down \<and>
   rejects_with_values api_down \<and>
   fst (getAvailableSports sample_platform api_down 0 1 2 3 new_service) = [''all''] \<and>
   fst (getAvailableSports sample_platform api_down 0 1 2 3 new_service) \<noteq>
     [''all'', ''nba'', ''nfl'', ''mlb'', ''nhl'', ''soccer'']"
proof -
  have d: "always_fails api_down"
    by (simp add: always_fails_def failed_def api_down_def)
  have v: "rejects_with_values api_down"
    by (simp add: rejects_with_values_def api_down_def)
  from available_sports_when_upstream_fails[OF reachable_failing.constructed d v,
         where ?t0.0 = 0 and tb = 1 and tp = 2 and ?t3.0 = 3 and pf = sample_platform] d v
  show ?thesis
    by (simp add: reachable_failing.constructed fallback_sports_def UNIFIED_SPORTS_defs)
qed

subsection \<open>The kinds of data in the cache\<close>

text \<open>
  Every method keeps the cache well typed, so from a new service no lookup ever returns
  data of another method, and \<open>untyped_hit\<close> is never the result of a call.
\<close>

lemma well_typedD:
  "well_typed c \<Longrightarrow> c k = Some e \<Longrightarrow>
   (case entry_data e of
      OpportunitiesPayload r \<Rightarrow> startsWith k ''betting-opportunities:''
    | PropsPayload r \<Rightarrow> startsWith k ''player-props:''
    | SportsPayload xs \<Rightarrow> k = ''available-sports'')"
  unfolding well_typed_def by blast

lemma well_typed_delete: "well_typed c \<Longrightarrow> well_typed (c(k := None))"
  unfolding well_typed_def by simp

lemma well_typed_store:
  assumes "well_typed c"
    and "case d of
           OpportunitiesPayload r \<Rightarrow> startsWith k ''betting-opportunities:''
         | PropsPayload r \<Rightarrow> startsWith k ''player-props:''
         | SportsPayload xs \<Rightarrow> k = ''available-sports''"
  shows "well_typed (setCache t k d ttl c)"
  unfolding well_typed_def setCache_def
proof (intro allI impI)
  fix k' e
  assume h: "(c(k \<mapsto> \<lparr>entry_data = d, entry_timestamp = t, entry_ttl = ttl\<rparr>)) k' = Some e"
  show "case entry_data e of
          OpportunitiesPayload r \<Rightarrow> startsWith k' ''betting-opportunities:''
        | PropsPayload r \<Rightarrow> startsWith k' ''player-props:''
        | SportsPayload xs \<Rightarrow> k' = ''available-sports''"
  proof (cases "k' = k")
    case True
    with h have "entry_data e = d" by auto
    with True assms(2) show ?thesis by (cases d) simp_all
  next
    case False
    with h have "c k' = Some e" by simp
    with assms(1) show ?thesis by (rule well_typedD)
  qed
qed

lemma well_typed_lookup: "well_typed c \<Longrightarrow> well_typed (snd (getFromCache t k c))"
  by (simp add: getFromCache_def well_typed_delete split: option.splits)

lemma getFromCache_hit:
  "fst (getFromCache t k c) = Some p \<Longrightarrow> \<exists>e. c k = Some e \<and> entry_data e = p"
  by (cases "c k") (simp_all add: getFromCache_def split: if_splits)

lemma opps_key_prefix:
  "startsWith (getCacheKey pf ''betting-opportunities'' fs) ''betting-opportunities:''"
  by (simp add: getCacheKey_def)

lemma props_key_prefix: "startsWith (getCacheKey pf ''player-props'' fs) ''player-props:''"
  by (simp add: getCacheKey_def)

lemma typed_opportunities_hit:
  assumes "well_typed c"
    and "fst (getFromCache t (getCacheKey pf ''betting-opportunities'' fs) c) = Some p"
  shows "\<exists>r. p = OpportunitiesPayload r"
proof -
  from getFromCache_hit[OF assms(2)] obtain e
    where e: "c (getCacheKey pf ''betting-opportunities'' fs) = Some e" "entry_data e = p"
    by blast
  from well_typedD[OF assms(1) e(1)] e(2) show ?thesis
    by (cases p) (simp_all add: getCacheKey_def)
qed

lemma typed_props_hit:
  assumes "well_typed c"
    and "fst (getFromCache t (getCacheKey pf ''player-props'' fs) c) = Some p"
  shows "\<exists>r. p = PropsPayload r"
proof -
  from getFromCache_hit[OF assms(2)] obtain e
    where e: "c (getCacheKey pf ''player-props'' fs) = Some e" "entry_data e = p"
    by blast
  from well_typedD[OF assms(1) e(1)] e(2) show ?thesis
    by (cases p) (simp_all add: getCacheKey_def)
qed

lemma typed_sports_hit:
  assumes "well_typed c"
    and "fst (getFromCache t ''available-sports'' c) = Some p"
  shows "\<exists>xs. p = SportsPayload xs"
proof -
  from getFromCache_hit[OF assms(2)] obtain e
    where e: "c ''available-sports'' = Some e" "entry_data e = p"
    by blast
  from well_typedD[OF assms(1) e(1)] e(2) show ?thesis
    by (cases p) simp_all
qed

lemma well_typed_opportunities:
  assumes "well_typed (cache svc)"
  shows "well_typed (cache (snd (getBettingOpportunities pf api t0 t1 fs svc)))"
proof (cases "fst (getFromCache t0 (getCacheKey pf ''betting-opportunities'' fs) (cache svc))")
  case None
  have l: "well_typed (snd (getFromCache t0 (getCacheKey pf ''betting-opportunities'' fs) (cache svc)))"
    using assms by (rule well_typed_lookup)
  show ?thesis
  proof (cases "fetchBettingOpportunities pf api t1 fs")
    case (Inl e)
    with None l show ?thesis by (simp add: getBettingOpportunities_def Let_def)
  next
    case (Inr xs)
    have "well_typed (setCache t1 (getCacheKey pf ''betting-opportunities'' fs)
            (OpportunitiesPayload (success_response xs fs t1)) CACHE_TTL
            (snd (getFromCache t0 (getCacheKey pf ''betting-opportunities'' fs) (cache svc))))"
      using l by (rule well_typed_store) (simp add: opps_key_prefix)
    with None Inr show ?thesis by (simp add: getBettingOpportunities_def Let_def)
  qed
next
  case (Some p)
  with assms show ?thesis
    by (cases p) (simp_all add: getBettingOpportunities_def Let_def)
qed

lemma well_typed_props:
  assumes "well_typed (cache svc)"
  shows "well_typed (cache (snd (getPlayerProps pf api t0 t1 fs svc)))"
proof (cases "fst (getFromCache t0 (getCacheKey pf ''player-props'' fs) (cache svc))")
  case None
  have l: "well_typed (snd (getFromCache t0 (getCacheKey pf ''player-props'' fs) (cache svc)))"
    using assms by (rule well_typed_lookup)
  show ?thesis
  proof (cases "fetchPlayerProps pf api t1 fs")
    case (Inl e)
    with None l show ?thesis by (simp add: getPlayerProps_def Let_def)
  next
    case (Inr xs)
    have "well_typed (setCache t1 (getCacheKey pf ''player-props'' fs)
            (PropsPayload (success_response xs fs t1)) CACHE_TTL
            (snd (getFromCache t0 (getCacheKey pf ''player-props'' fs) (cache svc))))"
      using l by (rule well_typed_store) (simp add: props_key_prefix)
    with None Inr show ?thesis by (simp add: getPlayerProps_def Let_def)
  qed
next
  case (Some p)
  with assms show ?thesis
    by (cases p) (simp_all add: getPlayerProps_def Let_def)
qed

lemma well_typed_sports:
  assumes "well_typed (cache svc)"
  shows "well_typed (cache (snd (getAvailableSports pf api t0 tb tp t3 svc)))"
proof (cases "fst (getFromCache t0 ''available-sports'' (cache svc))")
  case None
  let ?svc0 = "svc\<lparr>cache := snd (getFromCache t0 ''available-sports'' (cache svc))\<rparr>"
  let ?fs = "no_filters\<lparr>f_maxResults := Some 100\<rparr>"
  let ?b = "getBettingOpportunities pf api t0 tb ?fs ?svc0"
  let ?p = "getPlayerProps pf api t0 tp ?fs (snd ?b)"
  have "well_typed (cache ?svc0)"
    using assms by (simp add: well_typed_lookup)
  then have "well_typed (cache (snd ?b))" by (rule well_typed_opportunities)
  then have wp: "well_typed (cache (snd ?p))" by (rule well_typed_props)
  have stored: "well_typed (setCache t3 ''available-sports'' (SportsPayload xs)
                              (2 * 60 * 1000) (cache (snd ?p)))" for xs
    using wp by (rule well_typed_store) simp
  show ?thesis
  proof (cases "fst ?b")
    case (Rejects e)
    with None wp show ?thesis by (simp add: getAvailableSports_def Let_def)
  next
    case rb: (Resolves br)
    show ?thesis
    proof (cases "fst ?p")
      case (Rejects e)
      with None rb wp show ?thesis by (simp add: getAvailableSports_def Let_def)
    next
      case (Resolves pr)
      with None rb stored show ?thesis by (simp add: getAvailableSports_def Let_def)
    qed
  qed
next
  case (Some p)
  with assms show ?thesis
    by (cases p) (simp_all add: getAvailableSports_def Let_def)
qed

lemma well_typed_new: "well_typed (cache new_service)"
  by (simp add: well_typed_def new_service_def)

lemma well_typed_clear: "well_typed (cache (clearCache svc))"
  by (simp add: well_typed_def clearCache_def)

end
